theory Spec2Isabelle
  imports Complex_Main "HOL-Library.Sublist" "HOL-Library.AList" "HOL-Library.Log_Nat"
begin

section \<open>Mood entries, dates and the clock\<close>

text \<open>
  A mood entry as the two screens read it: the calendar date, the rating and the optional
  free text. The source keeps the date as an ISO string \<^verbatim>\<open>YYYY-MM-DD\<close>; the model keeps
  the day that string denotes, as the number of days since 1970-01-01, so that the lexical
  comparison of two ISO strings becomes \<open>\<le>\<close>.
\<close>

record MoodEntry =
  date :: int
  rating :: int
  details :: "string option"

text \<open>
  A \<^verbatim>\<open>Date\<close> is a time value, in milliseconds since 1970-01-01T00:00Z. The device's
  time zone enters through the two conversions of ECMAScript: \<^verbatim>\<open>LocalTime(t)\<close> adds the
  offset in force at the instant \<open>t\<close>, and \<^verbatim>\<open>UTC(t)\<close> subtracts the offset the zone assigns
  to the local time \<open>t\<close>.
\<close>

record TimeZone =
  offsetAtUTC :: "int \<Rightarrow> int"
  offsetAtLocal :: "int \<Rightarrow> int"

definition msPerDay :: int where
  "msPerDay = 86400000"

definition Day :: "int \<Rightarrow> int" where
  "Day t = t div msPerDay"

definition LocalTime :: "TimeZone \<Rightarrow> int \<Rightarrow> int" where
  "LocalTime zone t = t + offsetAtUTC zone t"

definition UTC :: "TimeZone \<Rightarrow> int \<Rightarrow> int" where
  "UTC zone t = t - offsetAtLocal zone t"

text \<open>\<^verbatim>\<open>new Date('YYYY-MM-DD')\<close>: midnight UTC of that date.\<close>

definition parseDate :: "int \<Rightarrow> int" where
  "parseDate d = d * msPerDay"

text \<open>
  \<^verbatim>\<open>new Date(entry.date).getDay()\<close>: the weekday of the local time, 0 for Sunday;
  1970-01-01 was a Thursday.
\<close>

definition getDay :: "TimeZone \<Rightarrow> int \<Rightarrow> nat" where
  "getDay zone d = nat ((Day (LocalTime zone (parseDate d)) + 4) mod 7)"

text \<open>
  \<^verbatim>\<open>const prevDate = new Date(mostRecentDate); prevDate.setDate(prevDate.getDate() - i);
  prevDate.toISOString().split('T')[0]\<close>: \<^verbatim>\<open>setDate\<close> moves the local time back by
  \<open>i\<close> days and converts it to a time value again; the date read back is the UTC one.
\<close>

definition daysBefore :: "TimeZone \<Rightarrow> int \<Rightarrow> nat \<Rightarrow> int" where
  "daysBefore zone d i = Day (UTC zone (LocalTime zone (parseDate d) - int i * msPerDay))"

section \<open>Numbers\<close>

text \<open>
  A JavaScript number is an IEEE 754 double. \<open>toDouble\<close> rounds a rational to the nearest
  number with a 53-bit significand, a tie going to the even significand; the exponent range
  is not bounded here (no overflow to infinity, no subnormal numbers), which no mean of
  ratings reaches.
\<close>

definition roundHalfEven :: "rat \<Rightarrow> int" where
  "roundHalfEven y =
     (let f = \<lfloor>y\<rfloor>; r = y - of_int f
      in if r < 1 / 2 then f else if r > 1 / 2 then f + 1 else if even f then f else f + 1)"

text \<open>The exponent \<open>e\<close> with \<open>2 powi e \<le> \<bar>x\<bar> < 2 powi (e + 1)\<close>, for \<open>x \<noteq> 0\<close>.\<close>

definition binade :: "rat \<Rightarrow> int" where
  "binade x =
     (if 1 \<le> \<bar>x\<bar> then int (floorlog 2 (nat \<lfloor>\<bar>x\<bar>\<rfloor>)) - 1
      else (let k = int (floorlog 2 (nat \<lfloor>1 / \<bar>x\<bar>\<rfloor>))
            in if \<bar>x\<bar> = 2 powi (1 - k) then 1 - k else - k))"

definition toDouble :: "rat \<Rightarrow> rat" where
  "toDouble x =
     (if x = 0 then 0
      else (let u = 2 powi (binade x - 52)
            in sgn x * of_int (roundHalfEven (\<bar>x\<bar> / u)) * u))"

text \<open>\<^verbatim>\<open>entries.reduce((sum, entry) => sum + entry.rating, 0)\<close>\<close>

definition sumRatings :: "MoodEntry list \<Rightarrow> int" where
  "sumRatings es = foldl (\<lambda>total entry. total + rating entry) 0 es"

text \<open>
  \<^verbatim>\<open>sum / entries.length\<close>: the quotient of two doubles, rounded to a double. (The sum
  of the ratings is an integer and is exact as long as it stays below \<open>2 ^ 53\<close>.)
\<close>

definition average :: "MoodEntry list \<Rightarrow> rat" where
  "average es = toDouble (of_int (sumRatings es) / of_nat (length es))"

section \<open>Home screen: streak\<close>

text \<open>
  \<^verbatim>\<open>const dateMap = new Map(); allEntries.forEach(entry => dateMap.set(entry.date, true))\<close>
\<close>

definition dateMapOf :: "MoodEntry list \<Rightarrow> (int \<rightharpoonup> bool)" where
  "dateMapOf allEntries = foldl (\<lambda>m entry. m(date entry \<mapsto> True)) Map.empty allEntries"

text \<open>
  \<^verbatim>\<open>for (let i = 1; i <= 365; i++) { ... if (dateMap.has(dateStr)) currentStreak++; else break; }\<close>
  where \<^verbatim>\<open>dateStr\<close> is the date read back after stepping \<open>i\<close> days.
\<close>

function streakLoop :: "TimeZone \<Rightarrow> (int \<rightharpoonup> bool) \<Rightarrow> int \<Rightarrow> nat \<Rightarrow> nat \<Rightarrow> nat" where
  "streakLoop zone dateMap mostRecentDate i currentStreak =
     (if i \<le> 365 then
        (if dateMap (daysBefore zone mostRecentDate i) \<noteq> None
         then streakLoop zone dateMap mostRecentDate (i + 1) (currentStreak + 1)
         else currentStreak)
      else currentStreak)"
  by pat_completeness auto
termination
  by (relation "measure (\<lambda>(zone, dateMap, mostRecentDate, i, currentStreak). 366 - i)") auto

declare streakLoop.simps [simp del]

text \<open>
  The streak of \<^verbatim>\<open>refreshMoodData\<close>. \<open>allEntries\<close> is what the query returns; the
  query asks for \<^verbatim>\<open>.order('date', { ascending: false })\<close>, and the code takes
  \<^verbatim>\<open>allEntries[0]\<close> for the most recent entry.
\<close>

definition computeStreak :: "TimeZone \<Rightarrow> MoodEntry list \<Rightarrow> nat" where
  "computeStreak zone allEntries =
     (case allEntries of
        [] \<Rightarrow> 0
      | first # _ \<Rightarrow> streakLoop zone (dateMapOf allEntries) (date first) 1 1)"

text \<open>What the query's ordering gives: dates never increase along the list.\<close>

definition orderedByDateDesc :: "MoodEntry list \<Rightarrow> bool" where
  "orderedByDateDesc es = sorted_wrt (\<ge>) (map date es)"

subsection \<open>The streak as the specification words it\<close>

text \<open>
  Sort the distinct dates descending; starting from the most recent, count consecutive
  calendar days present; the first gap halts the count.
\<close>

fun runLength :: "int list \<Rightarrow> nat" where
  "runLength [] = 0"
| "runLength [d] = 1"
| "runLength (d # e # ds) = (if e = d - 1 then Suc (runLength (e # ds)) else 1)"

definition distinctDatesDesc :: "MoodEntry list \<Rightarrow> int list" where
  "distinctDatesDesc es = rev (sort (remdups (map date es)))"

definition streakSpec :: "MoodEntry list \<Rightarrow> nat" where
  "streakSpec es = runLength (distinctDatesDesc es)"

text \<open>One neutral entry a day, for \<open>n\<close> days in a row, most recent first.\<close>

fun dailyEntries :: "nat \<Rightarrow> MoodEntry list" where
  "dailyEntries 0 = []"
| "dailyEntries (Suc n) = \<lparr>date = int n, rating = 3, details = None\<rparr> # dailyEntries n"

text \<open>Days present in a row going back from \<open>m\<close>, looking at no more than \<open>n\<close> days.\<close>

fun consec :: "int set \<Rightarrow> int \<Rightarrow> nat \<Rightarrow> nat" where
  "consec D m 0 = 0"
| "consec D m (Suc n) = (if m \<in> D then Suc (consec D (m - 1) n) else 0)"

text \<open>
  The number of earlier days the loop looks up: one for each day of the run, the last one
  being the gap, and no more than 365.
\<close>

definition walkedDays :: "MoodEntry list \<Rightarrow> nat" where
  "walkedDays es = min 365 (streakSpec es)"

text \<open>
  No clock change touches the walk: each local time the loop steps back to is assigned the
  offset that is in force at the most recent entry's midnight.
\<close>

definition clockSteady :: "TimeZone \<Rightarrow> MoodEntry list \<Rightarrow> bool" where
  "clockSteady zone es =
     (case es of
        [] \<Rightarrow> True
      | first # _ \<Rightarrow>
          (\<forall>i \<in> {1..walkedDays es}.
             offsetAtLocal zone (LocalTime zone (parseDate (date first)) - int i * msPerDay)
               = offsetAtUTC zone (parseDate (date first))))"

text \<open>A zone that keeps one offset, such as UTC itself.\<close>

definition fixedOffsetZone :: "int \<Rightarrow> TimeZone" where
  "fixedOffsetZone h = \<lparr>offsetAtUTC = (\<lambda>t. h), offsetAtLocal = (\<lambda>t. h)\<rparr>"

definition utc :: TimeZone where
  "utc = fixedOffsetZone 0"

text \<open>
  A zone four hours behind UTC until 2024-11-03T06:00Z (day 20030) and five hours behind
  from then on; local times before 02:00 of that day are assigned the earlier offset.
\<close>

definition autumnChangeZone :: TimeZone where
  "autumnChangeZone =
     \<lparr>offsetAtUTC = (\<lambda>t. if t < 20030 * msPerDay + 21600000 then - 14400000 else - 18000000),
      offsetAtLocal = (\<lambda>t. if t < 20030 * msPerDay + 7200000 then - 14400000 else - 18000000)\<rparr>"

section \<open>Home screen: day and week averages\<close>

text \<open>\<^verbatim>\<open>Math.round\<close>, of the exact value of a double: the nearest integer, a half going up.\<close>

definition Math_round :: "rat \<Rightarrow> int" where
  "Math_round x = \<lfloor>x + 1 / 2\<rfloor>"


definition dayAverage :: "MoodEntry list \<Rightarrow> int option" where
  "dayAverage dayEntries =
     (if length dayEntries > 0 then Some (Math_round (average dayEntries)) else None)"

text \<open>
  The same function, week average of the historical day: the query is
  \<^verbatim>\<open>.gte('date', startDate).lte('date', targetDateStr)\<close> with
  \<^verbatim>\<open>sevenDaysAgo.setDate(sevenDaysAgo.getDate() - 6)\<close>; \<^verbatim>\<open>weekAverage\<close> stays
  \<^verbatim>\<open>null\<close> when the answer is empty. (The start of the window is taken as the date
  6 days before the target, as any clock without a change of offset in that week gives it.)
\<close>

definition historicalWeekEntries :: "int \<Rightarrow> MoodEntry list \<Rightarrow> MoodEntry list" where
  "historicalWeekEntries targetDate store =
     (let startDate = targetDate - 6
      in filter (\<lambda>entry. startDate \<le> date entry \<and> date entry \<le> targetDate) store)"

definition historicalWeekAverage :: "int \<Rightarrow> MoodEntry list \<Rightarrow> rat option" where
  "historicalWeekAverage targetDate store =
     (let weekEntries = historicalWeekEntries targetDate store
      in if length weekEntries > 0 then Some (average weekEntries) else None)"

text \<open>
  \<^verbatim>\<open>refreshMoodData\<close>, "Get weekly entries (last 7 days)":
  \<^verbatim>\<open>sevenDaysAgo.setDate(sevenDaysAgo.getDate() - 7)\<close>, then
  \<^verbatim>\<open>allEntries.filter(entry => entry.date >= startDate && entry.date <= today)\<close>.
  (\<open>today\<close> is the date string of the present moment and the start the date 7 days before
  it, as any clock without a change of offset in that week gives it.)
\<close>

definition currentWeekEntries :: "int \<Rightarrow> MoodEntry list \<Rightarrow> MoodEntry list" where
  "currentWeekEntries today allEntries =
     (let startDate = today - 7
      in filter (\<lambda>entry. date entry \<ge> startDate \<and> date entry \<le> today) allEntries)"

definition weeklyAverage :: "int \<Rightarrow> MoodEntry list \<Rightarrow> rat option" where
  "weeklyAverage today allEntries =
     (let weekEntries = currentWeekEntries today allEntries
      in if length weekEntries > 0 then Some (average weekEntries) else None)"

text \<open>
  The summary card: \<^verbatim>\<open>getMoodColor\<close> on the stored day mood, and on
  \<^verbatim>\<open>weeklyAverage ? Math.round(weeklyAverage) : null\<close> for the week.
\<close>

datatype themeColor = mood1 | mood2 | mood3 | mood4 | mood5 | textColor

definition getMoodColor :: "int option \<Rightarrow> themeColor" where
  "getMoodColor r =
     (case r of
        None \<Rightarrow> textColor
      | Some n \<Rightarrow>
          if n = 1 then mood1 else if n = 2 then mood2 else if n = 3 then mood3
          else if n = 4 then mood4 else if n = 5 then mood5 else textColor)"

definition weeklyMoodRounded :: "rat option \<Rightarrow> int option" where
  "weeklyMoodRounded w =
     (case w of None \<Rightarrow> None | Some a \<Rightarrow> if a = 0 then None else Some (Math_round a))"

text \<open>Rounding to the nearest integer with a half going away from zero.\<close>

definition roundHalfAwayFromZero :: "rat \<Rightarrow> int" where
  "roundHalfAwayFromZero x = (if x < 0 then - \<lfloor>- x + 1 / 2\<rfloor> else \<lfloor>x + 1 / 2\<rfloor>)"

section \<open>Analytics screen: number and string helpers\<close>

text \<open>Decimal digits of a natural number.\<close>

definition digitChar :: "nat \<Rightarrow> char" where
  "digitChar n = ''0123456789'' ! (n mod 10)"

function decimal :: "nat \<Rightarrow> string" where
  "decimal n = (if n < 10 then [digitChar n] else decimal (n div 10) @ [digitChar n])"
  by pat_completeness auto
termination
  by (relation "measure id") auto

declare decimal.simps [simp del]

text \<open>
  \<^verbatim>\<open>Number.prototype.toFixed(1)\<close>, of the exact value \<open>x\<close> of a double below
  \<open>10 ^ 21\<close>: the sign, then the integer \<open>n\<close> with \<open>n / 10\<close> nearest to the magnitude
  (the larger one at a tie), written with one digit after the point.
\<close>

definition toFixed1 :: "rat \<Rightarrow> string" where
  "toFixed1 x =
     (let n = nat \<lfloor>\<bar>x\<bar> * 10 + 1 / 2\<rfloor>
      in (if x < 0 then ''-'' else '''') @ decimal (n div 10) @ ''.'' @ [digitChar n])"

text \<open>\<^verbatim>\<open>String.prototype.includes\<close>: \<open>word\<close> occurs in \<open>s\<close> as a contiguous run.\<close>

fun String_includes :: "string \<Rightarrow> string \<Rightarrow> bool" where
  "String_includes [] word = (word = [])"
| "String_includes (c # cs) word = (prefix word (c # cs) \<or> String_includes cs word)"

text \<open>\<^verbatim>\<open>toLowerCase\<close> and \<^verbatim>\<open>toUpperCase\<close>, on the ASCII letters.\<close>

definition toLowerCaseChar :: "char \<Rightarrow> char" where
  "toLowerCaseChar c =
     (case map_of (zip ''ABCDEFGHIJKLMNOPQRSTUVWXYZ'' ''abcdefghijklmnopqrstuvwxyz'') c of
        Some l \<Rightarrow> l | None \<Rightarrow> c)"

definition toUpperCaseChar :: "char \<Rightarrow> char" where
  "toUpperCaseChar c =
     (case map_of (zip ''abcdefghijklmnopqrstuvwxyz'' ''ABCDEFGHIJKLMNOPQRSTUVWXYZ'') c of
        Some u \<Rightarrow> u | None \<Rightarrow> c)"

definition toLowerCase :: "string \<Rightarrow> string" where
  "toLowerCase s = map toLowerCaseChar s"

text \<open>\<^verbatim>\<open>trigger.charAt(0).toUpperCase() + trigger.slice(1)\<close>\<close>

definition capitalize :: "string \<Rightarrow> string" where
  "capitalize trigger = map toUpperCaseChar (take 1 trigger) @ drop 1 trigger"

text \<open>
  \<^verbatim>\<open>Array.prototype.sort(compare)\<close>: a stable sort; \<open>a\<close> stays before \<open>b\<close> unless
  \<open>compare a b > 0\<close>.
\<close>

fun insertBy :: "('a \<Rightarrow> 'a \<Rightarrow> rat) \<Rightarrow> 'a \<Rightarrow> 'a list \<Rightarrow> 'a list" where
  "insertBy compare x [] = [x]"
| "insertBy compare x (y # ys) =
     (if compare x y \<le> 0 then x # y # ys else y # insertBy compare x ys)"

definition sortBy :: "('a \<Rightarrow> 'a \<Rightarrow> rat) \<Rightarrow> 'a list \<Rightarrow> 'a list" where
  "sortBy compare xs = foldr (insertBy compare) xs []"

text \<open>\<^verbatim>\<open>xs[0]\<close>, \<^verbatim>\<open>undefined\<close> on the empty array.\<close>

definition first :: "'a list \<Rightarrow> 'a option" where
  "first xs = (case xs of [] \<Rightarrow> None | x # _ \<Rightarrow> Some x)"

text \<open>
  \<^verbatim>\<open>(averageMood || 0)\<close>. The comparators subtract two such doubles; only the sign of
  the difference is used, and rounding a difference to a double keeps its sign.
\<close>

definition orZero :: "rat option \<Rightarrow> rat" where
  "orZero a = (case a of None \<Rightarrow> 0 | Some x \<Rightarrow> x)"

section \<open>Analytics screen: weekday groups and patterns\<close>

definition daysOfWeek :: "string list" where
  "daysOfWeek =
     [''Sunday'', ''Monday'', ''Tuesday'', ''Wednesday'', ''Thursday'', ''Friday'', ''Saturday'']"

record DayGroup =
  day :: string
  entries :: "MoodEntry list"
  averageMood :: "rat option"

definition entriesByDay :: "TimeZone \<Rightarrow> MoodEntry list \<Rightarrow> DayGroup list" where
  "entriesByDay zone es =
     map (\<lambda>d.
       let dayEntries = filter (\<lambda>entry. daysOfWeek ! getDay zone (date entry) = d) es
       in \<lparr>day = d, entries = dayEntries,
           averageMood = (if length dayEntries > 0 then Some (average dayEntries) else None)\<rparr>)
       daysOfWeek"

definition highestMoodDay :: "TimeZone \<Rightarrow> MoodEntry list \<Rightarrow> DayGroup option" where
  "highestMoodDay zone es =
     first (sortBy (\<lambda>a b. orZero (averageMood b) - orZero (averageMood a))
              (filter (\<lambda>d. averageMood d \<noteq> None) (entriesByDay zone es)))"

definition lowestMoodDay :: "TimeZone \<Rightarrow> MoodEntry list \<Rightarrow> DayGroup option" where
  "lowestMoodDay zone es =
     first (sortBy (\<lambda>a b. orZero (averageMood a) - orZero (averageMood b))
              (filter (\<lambda>d. averageMood d \<noteq> None) (entriesByDay zone es)))"

text \<open>
  The guard \<^verbatim>\<open>if (highestMoodDay && highestMoodDay.averageMood)\<close>: the group exists and
  its average is neither \<^verbatim>\<open>null\<close> nor 0.
\<close>

definition truthyAverage :: "DayGroup option \<Rightarrow> (DayGroup \<times> rat) option" where
  "truthyAverage g =
     (case g of
        None \<Rightarrow> None
      | Some d \<Rightarrow> (case averageMood d of
                    None \<Rightarrow> None
                  | Some a \<Rightarrow> if a = 0 then None else Some (d, a)))"

record MoodPattern =
  day :: string
  pattern :: string
  description :: string

definition peakDayPattern :: "TimeZone \<Rightarrow> MoodEntry list \<Rightarrow> MoodPattern list" where
  "peakDayPattern zone es =
     (case truthyAverage (highestMoodDay zone es) of
        None \<Rightarrow> []
      | Some (d, a) \<Rightarrow>
          [\<lparr>day = DayGroup.day d, pattern = ''Peak Day'',
            description = ''You tend to feel your best on '' @ DayGroup.day d
              @ ''s with an average mood of '' @ toFixed1 a @ ''.''\<rparr>])"

definition dipDayPattern :: "TimeZone \<Rightarrow> MoodEntry list \<Rightarrow> MoodPattern list" where
  "dipDayPattern zone es =
     (case truthyAverage (lowestMoodDay zone es) of
        None \<Rightarrow> []
      | Some (d, a) \<Rightarrow>
          [\<lparr>day = DayGroup.day d, pattern = ''Dip Day'',
            description = ''You tend to experience lower moods on '' @ DayGroup.day d
              @ ''s with an average mood of '' @ toFixed1 a @ ''.''\<rparr>])"

definition weekdayEntries :: "TimeZone \<Rightarrow> MoodEntry list \<Rightarrow> MoodEntry list" where
  "weekdayEntries zone es =
     filter (\<lambda>entry. getDay zone (date entry) \<ge> 1 \<and> getDay zone (date entry) \<le> 5) es"

definition weekendEntries :: "TimeZone \<Rightarrow> MoodEntry list \<Rightarrow> MoodEntry list" where
  "weekendEntries zone es =
     filter (\<lambda>entry. getDay zone (date entry) = 0 \<or> getDay zone (date entry) = 6) es"

definition weekdayAvg :: "TimeZone \<Rightarrow> MoodEntry list \<Rightarrow> rat" where
  "weekdayAvg zone es =
     (if length (weekdayEntries zone es) > 0 then average (weekdayEntries zone es) else 0)"

definition weekendAvg :: "TimeZone \<Rightarrow> MoodEntry list \<Rightarrow> rat" where
  "weekendAvg zone es =
     (if length (weekendEntries zone es) > 0 then average (weekendEntries zone es) else 0)"

text \<open>
  The two averages are doubles, and so is each difference the rule takes of them:
  \<^verbatim>\<open>Math.abs(weekdayAvg - weekendAvg) > 0.5\<close> for the test,
  \<^verbatim>\<open>(weekendAvg - weekdayAvg).toFixed(1)\<close> and
  \<^verbatim>\<open>(weekdayAvg - weekendAvg).toFixed(1)\<close> for the description.
\<close>

definition weekendPattern :: "TimeZone \<Rightarrow> MoodEntry list \<Rightarrow> MoodPattern list" where
  "weekendPattern zone es =
     (if \<bar>toDouble (weekdayAvg zone es - weekendAvg zone es)\<bar> > 1 / 2
         \<and> length (weekdayEntries zone es) > 0 \<and> length (weekendEntries zone es) > 0
      then
        (if weekendAvg zone es > weekdayAvg zone es
         then [\<lparr>day = ''Weekend'', pattern = ''Weekend Boost'',
                description = ''Your mood tends to improve on weekends by ''
                  @ toFixed1 (toDouble (weekendAvg zone es - weekdayAvg zone es))
                  @ '' points on average.''\<rparr>]
         else [\<lparr>day = ''Weekday'', pattern = ''Weekday Preference'',
                description = ''You tend to have better moods during weekdays compared to weekends by ''
                  @ toFixed1 (toDouble (weekdayAvg zone es - weekendAvg zone es)) @ '' points.''\<rparr>])
      else [])"

text \<open>The list handed to \<^verbatim>\<open>setMoodPatterns\<close>.\<close>

definition moodPatterns :: "TimeZone \<Rightarrow> MoodEntry list \<Rightarrow> MoodPattern list" where
  "moodPatterns zone es = peakDayPattern zone es @ dipDayPattern zone es @ weekendPattern zone es"

section \<open>Analytics screen: triggers\<close>

datatype impactType = positive | negative

definition positiveWords :: "string list" where
  "positiveWords =
     [''exercise'', ''workout'', ''friend'', ''family'', ''nature'', ''outdoors'', ''sleep'',
      ''rest'', ''meditation'', ''hobby'']"

definition negativeWords :: "string list" where
  "negativeWords =
     [''work'', ''stress'', ''tired'', ''sick'', ''argument'', ''conflict'', ''deadline'',
      ''anxiety'', ''worry'']"

record TriggerData =
  count :: nat
  totalImpact :: int
  type :: impactType

text \<open>
  The object \<^verbatim>\<open>triggers\<close>: its keys in the order they were first written, which is the
  order \<^verbatim>\<open>Object.entries\<close> walks them in.
\<close>

type_synonym triggerTable = "(string \<times> TriggerData) list"

text \<open>
  One vocabulary word against one note:
  \<^verbatim>\<open>if (details.includes(word)) { if (!triggers[word]) triggers[word] = {count: 0, totalImpact: 0, type};
  triggers[word].count += 1; triggers[word].totalImpact += entry.rating; }\<close>
  \<open>recordHit\<close> is the new value of \<^verbatim>\<open>triggers[word]\<close>, from the old one.
\<close>

definition recordHit :: "impactType \<Rightarrow> int \<Rightarrow> TriggerData option \<Rightarrow> TriggerData" where
  "recordHit ty r old =
     (let cur = (case old of
                   None \<Rightarrow> \<lparr>count = 0, totalImpact = 0, type = ty\<rparr>
                 | Some data \<Rightarrow> data)
      in cur\<lparr>count := count cur + 1, totalImpact := totalImpact cur + r\<rparr>)"

definition checkWord :: "impactType \<Rightarrow> string \<Rightarrow> int \<Rightarrow> triggerTable \<Rightarrow> string \<Rightarrow> triggerTable" where
  "checkWord ty lowered r triggers word =
     (if String_includes lowered word
      then AList.update word (recordHit ty r (map_of triggers word)) triggers
      else triggers)"

text \<open>The body of \<^verbatim>\<open>entries.forEach\<close>: an entry without details is skipped.\<close>

definition scanEntry :: "triggerTable \<Rightarrow> MoodEntry \<Rightarrow> triggerTable" where
  "scanEntry triggers entry =
     (case details entry of
        None \<Rightarrow> triggers
      | Some text \<Rightarrow>
          if text = [] then triggers
          else
            (let lowered = toLowerCase text;
                 afterPositive = foldl (checkWord positive lowered (rating entry)) triggers positiveWords
             in foldl (checkWord negative lowered (rating entry)) afterPositive negativeWords))"

definition collectTriggers :: "MoodEntry list \<Rightarrow> triggerTable" where
  "collectTriggers es = foldl scanEntry [] es"

record MoodTrigger =
  trigger :: string
  impact :: impactType
  frequency :: nat

definition toMoodTrigger :: "string \<times> TriggerData \<Rightarrow> MoodTrigger" where
  "toMoodTrigger kv =
     \<lparr>trigger = capitalize (fst kv), impact = type (snd kv), frequency = count (snd kv)\<rparr>"

text \<open>The list handed to \<^verbatim>\<open>setMoodTriggers\<close>.\<close>

definition extractTriggers :: "MoodEntry list \<Rightarrow> MoodTrigger list" where
  "extractTriggers es =
     take 5
       (sortBy (\<lambda>a b. of_nat (frequency b) - of_nat (frequency a))
          (map toMoodTrigger (filter (\<lambda>kv. count (snd kv) \<ge> 2) (collectTriggers es))))"

section \<open>The week average as the specification words it\<close>

text \<open>
  The 7-day inclusive window ending at \<open>endDate\<close>: the end date and the 6 preceding days;
  the arithmetic mean of the ratings of the entries dated in it, none when there are none.
\<close>

definition weekWindow :: "int \<Rightarrow> int list" where
  "weekWindow endDate = map (\<lambda>k. endDate - int k) [0..<7]"

definition meanOf :: "int list \<Rightarrow> rat" where
  "meanOf rs = of_int (sum_list rs) / of_nat (length rs)"

definition weekAverageSpec :: "int \<Rightarrow> MoodEntry list \<Rightarrow> rat option" where
  "weekAverageSpec endDate es =
     (let inWindow = filter (\<lambda>entry. date entry \<in> set (weekWindow endDate)) es
      in if inWindow = [] then None else Some (meanOf (map rating inWindow)))"

section \<open>The weekend rule as the specification words it\<close>

text \<open>
  The weekday of a calendar date (0 for Sunday), the entries dated on a Saturday or Sunday
  and those dated Monday to Friday, and the mean of a list of ratings as a double.
\<close>

definition weekdayOfDate :: "int \<Rightarrow> nat" where
  "weekdayOfDate d = nat ((d + 4) mod 7)"

definition datedWeekend :: "MoodEntry list \<Rightarrow> MoodEntry list" where
  "datedWeekend es =
     filter (\<lambda>entry. weekdayOfDate (date entry) = 0 \<or> weekdayOfDate (date entry) = 6) es"

definition datedWeekdays :: "MoodEntry list \<Rightarrow> MoodEntry list" where
  "datedWeekdays es =
     filter (\<lambda>entry. 1 \<le> weekdayOfDate (date entry) \<and> weekdayOfDate (date entry) \<le> 5) es"

definition doubleMean :: "int list \<Rightarrow> rat" where
  "doubleMean rs = toDouble (of_int (sum_list rs) / of_nat (length rs))"

text \<open>
  The device is at or east of Greenwich on the entries' dates: at midnight UTC of each
  date the local clock shows that same date.
\<close>

definition atOrEastOfGreenwich :: "TimeZone \<Rightarrow> MoodEntry list \<Rightarrow> bool" where
  "atOrEastOfGreenwich zone es =
     (\<forall>entry \<in> set es.
        0 \<le> offsetAtUTC zone (parseDate (date entry))
        \<and> offsetAtUTC zone (parseDate (date entry)) < msPerDay)"

text \<open>
  Reading a rendering back: the value of a string of decimal digits, taken from its last
  digit, and the number that digits, a point and one more digit denote.
\<close>

definition digitValue :: "char \<Rightarrow> nat option" where
  "digitValue c = map_of (zip ''0123456789'' [0..<10]) c"

fun digitsValue :: "string \<Rightarrow> nat option" where
  "digitsValue [] = Some 0"
| "digitsValue (c # cs) =
     (case digitValue c of
        None \<Rightarrow> None
      | Some v \<Rightarrow> (case digitsValue cs of None \<Rightarrow> None | Some r \<Rightarrow> Some (v + 10 * r)))"

definition oneDecimalValue :: "string \<Rightarrow> rat option" where
  "oneDecimalValue s =
     (case rev s of
        f # p # ip \<Rightarrow>
          if p = CHR ''.'' \<and> ip \<noteq> []
          then map_option (\<lambda>n. of_nat n / 10) (digitsValue (f # ip))
          else None
      | _ \<Rightarrow> None)"

section \<open>Sample entry lists\<close>

text \<open>An entry without details. Day 2 is a Saturday, day 3 a Sunday, day 4 a Monday.\<close>

definition plainEntry :: "int \<Rightarrow> int \<Rightarrow> MoodEntry" where
  "plainEntry d r = \<lparr>date = d, rating = r, details = None\<rparr>"

text \<open>Ratings 5, 5, 5 on a Saturday, a Sunday and a Saturday; 1, 1, 1 on three weekdays.\<close>

definition weekendBoostSample :: "MoodEntry list" where
  "weekendBoostSample =
     [plainEntry 2 5, plainEntry 3 5, plainEntry 9 5,
      plainEntry 4 1, plainEntry 5 1, plainEntry 6 1]"

text \<open>A low weekend (1 and 2) and a high Monday and Tuesday (4 and 5).\<close>

definition weekdayPreferenceSample :: "MoodEntry list" where
  "weekdayPreferenceSample = [plainEntry 2 1, plainEntry 3 2, plainEntry 4 4, plainEntry 5 5]"

text \<open>
  Six weekend ratings with mean 11/6 and six weekday ratings with mean 14/6: the means
  differ by exactly one half.
\<close>

definition halfPointSample :: "MoodEntry list" where
  "halfPointSample =
     [plainEntry 2 1, plainEntry 3 2, plainEntry 9 2, plainEntry 10 2, plainEntry 16 2,
      plainEntry 17 2, plainEntry 4 2, plainEntry 5 2, plainEntry 6 2, plainEntry 7 2,
      plainEntry 8 3, plainEntry 11 3]"

text \<open>
  Five weekend ratings with mean 12/5 and eight weekday ratings with mean 10/8: the means
  differ by 1.15.
\<close>

definition tenthSample :: "MoodEntry list" where
  "tenthSample =
     [plainEntry 2 2, plainEntry 3 2, plainEntry 9 2, plainEntry 10 3, plainEntry 16 3,
      plainEntry 4 1, plainEntry 5 1, plainEntry 6 1, plainEntry 7 1, plainEntry 8 1,
      plainEntry 11 1, plainEntry 12 2, plainEntry 13 2]"


section \<open>Triggers in terms of the entries\<close>

text \<open>
  The vocabulary in the order it is walked for each entry, the fixed polarity of a word,
  whether an entry's note mentions a word, the number of entries mentioning it and the sum of
  their ratings.
\<close>

definition vocabulary :: "string list" where
  "vocabulary = positiveWords @ negativeWords"

definition polarity :: "string \<Rightarrow> impactType" where
  "polarity word = (if word \<in> set positiveWords then positive else negative)"

definition mentions :: "MoodEntry \<Rightarrow> string \<Rightarrow> bool" where
  "mentions entry word =
     (case details entry of
        None \<Rightarrow> False
      | Some text \<Rightarrow> text \<noteq> [] \<and> String_includes (toLowerCase text) word)"

definition occurrences :: "MoodEntry list \<Rightarrow> string \<Rightarrow> nat" where
  "occurrences es word = length (filter (\<lambda>entry. mentions entry word) es)"

definition ratingTotal :: "MoodEntry list \<Rightarrow> string \<Rightarrow> int" where
  "ratingTotal es word = sum_list (map rating (filter (\<lambda>entry. mentions entry word) es))"

definition wordData :: "MoodEntry list \<Rightarrow> string \<Rightarrow> TriggerData" where
  "wordData es word =
     \<lparr>count = occurrences es word, totalImpact = ratingTotal es word, type = polarity word\<rparr>"

text \<open>
  The words in the order in which the scan first meets them: entry by entry, and within an
  entry in vocabulary order.
\<close>

definition noteNew :: "string list \<Rightarrow> string \<Rightarrow> string list" where
  "noteNew seen word = (if word \<in> set seen then seen else seen @ [word])"

definition encounterOrder :: "MoodEntry list \<Rightarrow> string list" where
  "encounterOrder es =
     foldl noteNew [] (concat (map (\<lambda>entry. filter (mentions entry) vocabulary) es))"

definition triggerOf :: "MoodEntry list \<Rightarrow> string \<Rightarrow> MoodTrigger" where
  "triggerOf es word =
     \<lparr>trigger = capitalize word, impact = polarity word, frequency = occurrences es word\<rparr>"

text \<open>
  The ranking as the specification words it: the vocabulary words with at least 2
  occurrences, sorted descending by count, ties in vocabulary order, the first 5.
\<close>

definition rankedInVocabularyOrder :: "MoodEntry list \<Rightarrow> MoodTrigger list" where
  "rankedInVocabularyOrder es =
     take 5 (sort_key (\<lambda>t. - int (frequency t))
       (map (triggerOf es) (filter (\<lambda>word. 2 \<le> occurrences es word) vocabulary)))"

text \<open>Stress first, then exercise with stress, then exercise.\<close>

definition stressFirstSample :: "MoodEntry list" where
  "stressFirstSample =
     [\<lparr>date = 2, rating = 2, details = Some ''Stress at the office''\<rparr>,
      \<lparr>date = 3, rating = 3, details = Some ''Exercise helped with the stress''\<rparr>,
      \<lparr>date = 4, rating = 5, details = Some ''Long exercise session''\<rparr>]"

text \<open>The same notes with other ratings.\<close>

definition stressFirstRerated :: "MoodEntry list" where
  "stressFirstRerated =
     [\<lparr>date = 2, rating = 1, details = Some ''Stress at the office''\<rparr>,
      \<lparr>date = 3, rating = 1, details = Some ''Exercise helped with the stress''\<rparr>,
      \<lparr>date = 4, rating = 4, details = Some ''Long exercise session''\<rparr>]"

text \<open>Two notes about a workout, and nothing about work.\<close>

definition workoutSample :: "MoodEntry list" where
  "workoutSample =
     [\<lparr>date = 2, rating = 5, details = Some ''Morning Workout''\<rparr>,
      \<lparr>date = 3, rating = 4, details = Some ''workout with a friend''\<rparr>]"

text \<open>Each note mentions one more of six words than the one before; all are mentioned twice.\<close>

definition sixWordsSample :: "MoodEntry list" where
  "sixWordsSample =
     [\<lparr>date = 2, rating = 3, details = Some ''sleep rest hobby nature family friend''\<rparr>,
      \<lparr>date = 3, rating = 4, details = Some ''sleep rest hobby nature family friend''\<rparr>]"

section \<open>Rounding to a double\<close>

lemma roundHalfEven_ge: "of_int k \<le> y \<Longrightarrow> k \<le> roundHalfEven y"
proof -
  assume "of_int k \<le> y"
  then have "k \<le> \<lfloor>y\<rfloor>" by (simp add: le_floor_iff)
  then show ?thesis by (simp add: roundHalfEven_def Let_def)
qed

lemma roundHalfEven_le: "y \<le> of_int k \<Longrightarrow> roundHalfEven y \<le> k"
proof -
  assume y: "y \<le> of_int k"
  then have f: "\<lfloor>y\<rfloor> \<le> k" by (simp add: floor_le_iff)
  show ?thesis
  proof (cases "y - of_int \<lfloor>y\<rfloor> < 1 / 2")
    case True
    with f show ?thesis by (simp add: roundHalfEven_def Let_def)
  next
    case False
    then have "of_int \<lfloor>y\<rfloor> < y" by linarith
    with y have "of_int \<lfloor>y\<rfloor> < (of_int k :: rat)" by linarith
    then have "\<lfloor>y\<rfloor> + 1 \<le> k" by simp
    with f show ?thesis by (simp add: roundHalfEven_def Let_def)
  qed
qed

lemma binade_from_one:
  assumes "1 \<le> x"
  shows "\<exists>k::nat. binade x = int k \<and> 2 ^ k \<le> x \<and> x < 2 ^ (k + 1)"
proof -
  let ?n = "nat \<lfloor>x\<rfloor>"
  from assms have n: "0 < ?n" by simp
  from assms have ax: "\<bar>x\<bar> = x" by simp
  from floorlog_bounds [OF n, of 2]
  have lo: "2 ^ (floorlog 2 ?n - 1) \<le> ?n" and hi: "?n < 2 ^ floorlog 2 ?n" by simp_all
  have "floorlog 2 ?n \<noteq> 0" using n by (simp add: floorlog_eq_zero_iff)
  then have pos: "0 < floorlog 2 ?n" by simp
  define k where "k = floorlog 2 ?n - 1"
  from pos have fl: "floorlog 2 ?n = k + 1" by (simp add: k_def)
  have b: "binade x = int k"
    using assms ax fl by (simp add: binade_def)
  have nf: "(of_nat ?n :: rat) = of_int \<lfloor>x\<rfloor>" using assms by simp
  have xn: "of_nat ?n \<le> x" "x < of_nat ?n + 1"
    unfolding nf using floor_correct [of x] by simp_all
  have "2 ^ k \<le> ?n" using lo by (simp only: k_def)
  then have "(of_nat (2 ^ k) :: rat) \<le> of_nat ?n" by (simp only: of_nat_le_iff)
  then have "(2::rat) ^ k \<le> of_nat ?n" by simp
  from this xn(1) have l: "2 ^ k \<le> x" by (rule order_trans)
  have "?n + 1 \<le> 2 ^ (k + 1)" using hi fl by simp
  then have "(of_nat (?n + 1) :: rat) \<le> of_nat (2 ^ (k + 1))"
    by (simp only: of_nat_le_iff)
  then have "(of_nat ?n :: rat) + 1 \<le> 2 ^ (k + 1)" by simp
  from xn(2) this have h: "x < 2 ^ (k + 1)" by (rule less_le_trans)
  from b l h show ?thesis by blast
qed

lemma toDouble_range:
  assumes "1 \<le> x" and "x \<le> 5"
  shows "1 \<le> toDouble x \<and> toDouble x \<le> 5"
proof -
  from binade_from_one [OF assms(1)] obtain k :: nat where
    k: "binade x = int k" "2 ^ k \<le> x" "x < 2 ^ (k + 1)" by blast
  have "k < 3"
  proof (rule ccontr)
    assume "\<not> k < 3"
    then have "3 \<le> k" by simp
    then have "(2::rat) ^ 3 \<le> 2 ^ k" by (rule power_increasing) simp
    from this k(2) have "(2::rat) ^ 3 \<le> x" by (rule order_trans)
    moreover have "(2::rat) ^ 3 = 8" by simp
    ultimately have "8 \<le> x" by (simp only:)
    with assms(2) show False by linarith
  qed
  then have k52: "k \<le> 52" by simp
  define s :: nat where "s = 2 ^ (52 - k)"
  have spos: "0 < (of_nat s :: rat)" unfolding s_def by simp
  have "int k - 52 = - int (52 - k)" using k52 by simp
  then have "(2::rat) powi (binade x - 52) = 1 / 2 powi int (52 - k)"
    by (simp only: k(1) power_int_minus_divide)
  then have u: "(2::rat) powi (binade x - 52) = 1 / of_nat s"
    unfolding s_def by simp
  from assms(1) have x0: "x \<noteq> 0" and sg: "sgn x = 1" and ab: "\<bar>x\<bar> = x" by simp_all
  have td: "toDouble x = of_int (roundHalfEven (x * of_nat s)) / of_nat s"
    unfolding toDouble_def Let_def u sg ab using x0 by simp
  define r where "r = roundHalfEven (x * of_nat s)"
  have "1 * of_nat s \<le> x * of_nat s"
    using assms(1) spos by (intro mult_right_mono) simp_all
  then have "of_int (int s) \<le> x * of_nat s" by simp
  then have "int s \<le> r" unfolding r_def by (rule roundHalfEven_ge)
  then have "(of_int (int s) :: rat) \<le> of_int r" by (simp only: of_int_le_iff)
  then have "(of_nat s :: rat) \<le> of_int r" by simp
  then have lo: "1 \<le> toDouble x"
    unfolding td r_def [symmetric] using spos by (simp only: le_divide_eq_1_pos)
  have "x * of_nat s \<le> 5 * of_nat s"
    using assms(2) spos by (intro mult_right_mono) simp_all
  then have "x * of_nat s \<le> of_int (5 * int s)" by simp
  then have "r \<le> 5 * int s" unfolding r_def by (rule roundHalfEven_le)
  then have "(of_int r :: rat) \<le> of_int (5 * int s)" by (simp only: of_int_le_iff)
  then have "(of_int r :: rat) \<le> 5 * of_nat s" by simp
  then have hi: "toDouble x \<le> 5"
    unfolding td r_def [symmetric] using spos by (simp only: pos_divide_le_eq)
  from lo hi show ?thesis by simp
qed

lemma toDouble_nonneg: "0 \<le> x \<Longrightarrow> 0 \<le> toDouble x"
proof (cases "x = 0")
  case True
  then show ?thesis by (simp add: toDouble_def)
next
  case False
  assume "0 \<le> x"
  with False have s: "sgn x = 1" "0 \<le> \<bar>x\<bar>" by simp_all
  have u: "0 < (2::rat) powi (binade x - 52)" by simp
  then have "of_int 0 \<le> \<bar>x\<bar> / 2 powi (binade x - 52)" using s(2) by simp
  then have "0 \<le> roundHalfEven (\<bar>x\<bar> / 2 powi (binade x - 52))" by (rule roundHalfEven_ge)
  with u False s(1) show ?thesis by (simp add: toDouble_def Let_def)
qed

section \<open>Properties of the streak\<close>

lemma dom_dateMapOf_aux:
  "dom (foldl (\<lambda>m entry. m(date entry \<mapsto> True)) m0 es) = dom m0 \<union> date ` set es"
  by (induction es arbitrary: m0) auto

lemma dom_dateMapOf: "dom (dateMapOf es) = date ` set es"
  by (simp add: dateMapOf_def dom_dateMapOf_aux)

lemma daysBefore_steady:
  assumes "offsetAtLocal zone (LocalTime zone (parseDate d) - int i * msPerDay)
      = offsetAtUTC zone (parseDate d)"
  shows "daysBefore zone d i = d - int i"
proof -
  have "UTC zone (LocalTime zone (parseDate d) - int i * msPerDay) = (d - int i) * msPerDay"
    unfolding UTC_def assms by (simp add: LocalTime_def parseDate_def algebra_simps)
  then show ?thesis by (simp add: daysBefore_def Day_def msPerDay_def)
qed

lemma streakLoop_consec:
  assumes "\<forall>j. i \<le> j \<and> j \<le> 365 \<and> j \<le> i + consec (dom M) (m - int i) (366 - i)
      \<longrightarrow> daysBefore zone m j = m - int j"
  shows "streakLoop zone M m i c = c + consec (dom M) (m - int i) (366 - i)"
  using assms
proof (induction zone M m i c rule: streakLoop.induct)
  case (1 zone M m i c)
  show ?case
  proof (cases "i \<le> 365")
    case False
    then show ?thesis by (simp add: streakLoop.simps [of zone M m i c])
  next
    case le: True
    define k where "k = 365 - i"
    from le have k: "366 - i = Suc k" "366 - (i + 1) = k"
      by (simp_all add: k_def)
    from "1.prems" le have here: "daysBefore zone m i = m - int i" by simp
    show ?thesis
    proof (cases "M (m - int i) \<noteq> None")
      case True
      then have hit: "M (daysBefore zone m i) \<noteq> None" by (simp add: here)
      have cs: "consec (dom M) (m - int i) (Suc k) = Suc (consec (dom M) (m - (1 + int i)) k)"
        using True by (simp add: domIff algebra_simps)
      have "\<forall>j. i + 1 \<le> j \<and> j \<le> 365
          \<and> j \<le> i + 1 + consec (dom M) (m - int (i + 1)) (366 - (i + 1))
          \<longrightarrow> daysBefore zone m j = m - int j"
        using "1.prems" unfolding k cs by (simp add: algebra_simps)
      from "1.IH" [OF le hit this]
      have ih: "streakLoop zone M m (i + 1) (c + 1)
          = c + 1 + consec (dom M) (m - (1 + int i)) k"
        using k by (simp add: algebra_simps)
      have "streakLoop zone M m i c = streakLoop zone M m (i + 1) (c + 1)"
        using le hit by (simp add: streakLoop.simps [of zone M m i c])
      with ih cs show ?thesis using k by simp
    next
      case False
      then have "M (daysBefore zone m i) = None" by (simp add: here)
      then have "streakLoop zone M m i c = c"
        using le by (simp add: streakLoop.simps [of zone M m i c])
      with False k show ?thesis by (simp add: domIff)
    qed
  qed
qed

lemma consec_insert_above: "m < d \<Longrightarrow> consec (insert d S) m n = consec S m n"
  by (induction n arbitrary: m) auto

lemma consec_absent: "m \<notin> D \<Longrightarrow> consec D m n = 0"
  by (cases n) auto

lemma runLength_consec:
  "sorted_wrt (>) (d # ds) \<Longrightarrow> consec (set (d # ds)) d n = min n (runLength (d # ds))"
proof (induction n arbitrary: d ds)
  case 0
  then show ?case by simp
next
  case (Suc n)
  show ?case
  proof (cases ds)
    case Nil
    have "consec {d} (d - 1) n = 0" by (rule consec_absent) simp
    with Nil show ?thesis by simp
  next
    case (Cons e ds')
    from Suc.prems Cons have ed: "e < d" and srt: "sorted_wrt (>) (e # ds')"
      and below: "\<forall>x \<in> set ds'. x < e" by auto
    show ?thesis
    proof (cases "e = d - 1")
      case True
      have "consec (set (d # e # ds')) (d - 1) n = consec (set (e # ds')) e n"
        using True consec_insert_above [of e d "set (e # ds')" n] ed by simp
      also have "\<dots> = min n (runLength (e # ds'))" by (rule Suc.IH [OF srt])
      finally show ?thesis using Cons True by simp
    next
      case False
      have "d - 1 \<notin> set (d # e # ds')" using False ed below by auto
      then have "consec (set (d # e # ds')) (d - 1) n = 0" by (rule consec_absent)
      with Cons False show ?thesis by simp
    qed
  qed
qed

lemma distinctDatesDesc_sorted: "sorted_wrt (>) (distinctDatesDesc es)"
proof -
  have "sorted_wrt (<) (sort (remdups (map date es)))"
    by (simp add: strict_sorted_iff)
  then show ?thesis
    unfolding distinctDatesDesc_def by (simp add: sorted_wrt_rev)
qed

lemma set_distinctDatesDesc: "set (distinctDatesDesc es) = date ` set es"
  by (simp add: distinctDatesDesc_def)

lemma hd_sorted_desc_Max:
  "sorted_wrt (>) (d # ds) \<Longrightarrow> d = Max (set (d # ds))"
  by (intro Max_eqI [symmetric]) (auto intro: less_imp_le)

lemma distinctDatesDesc_Cons:
  assumes "orderedByDateDesc (e # es)"
  shows "\<exists>ds. distinctDatesDesc (e # es) = date e # ds"
proof -
  have ne: "distinctDatesDesc (e # es) \<noteq> []"
    using set_distinctDatesDesc [of "e # es"] by auto
  then obtain d ds where dd: "distinctDatesDesc (e # es) = d # ds"
    by (cases "distinctDatesDesc (e # es)") auto
  have "d = Max (set (d # ds))"
    using distinctDatesDesc_sorted [of "e # es"] dd hd_sorted_desc_Max by metis
  also have "\<dots> = Max (date ` set (e # es))"
    using set_distinctDatesDesc [of "e # es"] dd by simp
  also have "\<dots> = date e"
    using assms by (intro Max_eqI) (auto simp: orderedByDateDesc_def)
  finally show ?thesis using dd by simp
qed

lemma computeStreak_capped:
  assumes "orderedByDateDesc es" and "clockSteady zone es"
  shows "computeStreak zone es = min 366 (streakSpec es)"
proof (cases es)
  case Nil
  then show ?thesis
    by (simp add: computeStreak_def streakSpec_def distinctDatesDesc_def)
next
  case (Cons e es')
  from assms(1) Cons obtain ds where ds: "distinctDatesDesc (e # es') = date e # ds"
    using distinctDatesDesc_Cons by blast
  have srt: "sorted_wrt (>) (date e # ds)"
    using distinctDatesDesc_sorted [of "e # es'"] ds by simp
  have st: "set (date e # ds) = date ` set (e # es')"
    using set_distinctDatesDesc [of "e # es'"] ds by simp
  define D where "D = date ` set (e # es')"
  have mem: "date e \<in> D" by (simp add: D_def)
  have b: "consec D (date e) (Suc 365) = Suc (consec D (date e - 1) 365)"
    using mem by (simp only: consec.simps if_True)
  have c: "consec D (date e) (Suc 365) = min (Suc 365) (runLength (date e # ds))"
    using runLength_consec [OF srt, of "Suc 365"] unfolding st D_def .
  have sp: "streakSpec es = runLength (date e # ds)"
    using Cons ds by (simp add: streakSpec_def)
  from b c sp have run: "Suc (consec D (date e - 1) 365) = min 366 (streakSpec es)"
    by simp
  have steady: "\<forall>j. 1 \<le> j \<and> j \<le> 365 \<and> j \<le> 1 + consec D (date e - int 1) (366 - 1)
      \<longrightarrow> daysBefore zone (date e) j = date e - int j"
  proof (intro allI impI)
    fix j assume j: "1 \<le> j \<and> j \<le> 365 \<and> j \<le> 1 + consec D (date e - int 1) (366 - 1)"
    then have "j \<le> min 366 (streakSpec es)" using run by simp
    with j have "j \<in> {1..walkedDays es}" by (simp add: walkedDays_def)
    with assms(2) Cons
    have "offsetAtLocal zone (LocalTime zone (parseDate (date e)) - int j * msPerDay)
        = offsetAtUTC zone (parseDate (date e))"
      by (simp add: clockSteady_def)
    then show "daysBefore zone (date e) j = date e - int j" by (rule daysBefore_steady)
  qed
  have "computeStreak zone es = streakLoop zone (dateMapOf (e # es')) (date e) 1 1"
    using Cons by (simp add: computeStreak_def)
  also have "\<dots> = 1 + consec D (date e - int 1) (366 - 1)"
    using steady unfolding D_def dom_dateMapOf [symmetric] by (rule streakLoop_consec)
  also have "\<dots> = Suc (consec D (date e - 1) 365)" by simp
  finally show ?thesis using run by simp
qed

lemma map_date_dailyEntries: "map date (dailyEntries n) = rev (map int [0..<n])"
  by (induction n) auto

lemma runLength_countdown: "runLength (rev (map int [0..<n])) = n"
proof (induction n)
  case 0
  then show ?case by simp
next
  case (Suc n)
  then show ?case by (cases n) auto
qed

lemma distinctDatesDesc_dailyEntries:
  "distinctDatesDesc (dailyEntries n) = rev (map int [0..<n])"
proof -
  have inj: "inj_on int (set [0..<n])" by (simp add: inj_on_def)
  have d: "distinct (map int [0..<n])" by (simp add: distinct_map)
  have s: "sorted (map int [0..<n])" by (simp add: sorted_map) 
  have "sort (remdups (rev (map int [0..<n]))) = map int [0..<n]"
    using d s by (intro sorted_distinct_set_unique) auto
  then show ?thesis
    by (simp add: distinctDatesDesc_def map_date_dailyEntries)
qed

lemma streakSpec_dailyEntries: "streakSpec (dailyEntries n) = n"
  by (simp add: streakSpec_def distinctDatesDesc_dailyEntries runLength_countdown)

lemma ordered_dailyEntries: "orderedByDateDesc (dailyEntries n)"
  unfolding orderedByDateDesc_def map_date_dailyEntries
  by (simp add: sorted_wrt_rev sorted_map flip: sorted_wrt_map) 

lemma clockSteady_fixedOffsetZone: "clockSteady (fixedOffsetZone h) es"
  by (cases es) (simp_all add: clockSteady_def fixedOffsetZone_def)

lemma streakSpec_three_days:
  "streakSpec [\<lparr>date = d, rating = r1, details = n1\<rparr>, \<lparr>date = d - 1, rating = r2, details = n2\<rparr>,
     \<lparr>date = d - 2, rating = r3, details = n3\<rparr>] = 3"
  by (simp add: streakSpec_def distinctDatesDesc_def)

lemma streakSpec_gap:
  "streakSpec [\<lparr>date = d, rating = r1, details = n1\<rparr>, \<lparr>date = d - 2, rating = r3, details = n3\<rparr>]
     = 1"
  by (simp add: streakSpec_def distinctDatesDesc_def)

text \<open>
  The model follows the source across a clock change. In the zone that leaves summer time on
  2024-11-03 (day 20030), the step back from the 4th reads the 2nd: the entries of the 4th
  and the 3rd, a run of two days, are reported as 1; the entries of the 5th, 4th and 3rd as
  2; and the entries of the 4th, the 2nd and the 1st, with a gap on the 3rd, as 3.
\<close>

lemma computeStreak_across_clock_change:
  "daysBefore autumnChangeZone 20031 1 = 20029
   \<and> streakSpec [plainEntry 20031 3, plainEntry 20030 3] = 2
   \<and> computeStreak autumnChangeZone [plainEntry 20031 3, plainEntry 20030 3] = 1
   \<and> computeStreak autumnChangeZone
        [plainEntry 20032 3, plainEntry 20031 3, plainEntry 20030 3] = 2
   \<and> computeStreak autumnChangeZone
        [plainEntry 20031 3, plainEntry 20029 3, plainEntry 20028 3] = 3"
  by code_simp

text \<open>
  C1 (as amended). For the entries as the query delivers them (most recent date first), and
  when no clock change touches the days the loop steps back over, \<open>computeStreak\<close> is the
  length of the run of consecutive calendar days that starts at the most recent date among
  the distinct dates sorted descending, halting at the first gap, but never more than 366: the
  loop looks at no more than 365 earlier days. Entries sharing a date count once. The result
  is 0 for no entries; for one entry on each of \<open>d\<close>, \<open>d - 1\<close>, \<open>d - 2\<close> it is 3, and with
  the entry of \<open>d - 1\<close> missing it is 1.
\<close>

theorem computeStreak_run_capped:
  assumes "orderedByDateDesc es" and "clockSteady zone es"
  shows "computeStreak zone es = min 366 (streakSpec es)
    \<and> computeStreak zone [] = 0
    \<and> (clockSteady zone [\<lparr>date = d, rating = r1, details = n1\<rparr>,
          \<lparr>date = d - 1, rating = r2, details = n2\<rparr>,
          \<lparr>date = d - 2, rating = r3, details = n3\<rparr>] \<longrightarrow>
        computeStreak zone [\<lparr>date = d, rating = r1, details = n1\<rparr>,
          \<lparr>date = d - 1, rating = r2, details = n2\<rparr>,
          \<lparr>date = d - 2, rating = r3, details = n3\<rparr>] = 3)
    \<and> (clockSteady zone [\<lparr>date = d, rating = r1, details = n1\<rparr>,
          \<lparr>date = d - 2, rating = r3, details = n3\<rparr>] \<longrightarrow>
        computeStreak zone [\<lparr>date = d, rating = r1, details = n1\<rparr>,
          \<lparr>date = d - 2, rating = r3, details = n3\<rparr>] = 1)"
proof -
  let ?three = "[\<lparr>date = d, rating = r1, details = n1\<rparr>,
      \<lparr>date = d - 1, rating = r2, details = n2\<rparr>, \<lparr>date = d - 2, rating = r3, details = n3\<rparr>]"
  let ?gap = "[\<lparr>date = d, rating = r1, details = n1\<rparr>, \<lparr>date = d - 2, rating = r3, details = n3\<rparr>]"
  have 1: "computeStreak zone es = min 366 (streakSpec es)"
    using assms by (rule computeStreak_capped)
  have 2: "computeStreak zone [] = 0"
    by (simp add: computeStreak_def)
  have o3: "orderedByDateDesc ?three" and og: "orderedByDateDesc ?gap"
    by (simp_all add: orderedByDateDesc_def)
  have 3: "clockSteady zone ?three \<longrightarrow> computeStreak zone ?three = 3"
    using computeStreak_capped [OF o3] by (simp add: streakSpec_three_days)
  have 4: "clockSteady zone ?gap \<longrightarrow> computeStreak zone ?gap = 1"
    using computeStreak_capped [OF og] by (simp add: streakSpec_gap)
  from 1 2 3 4 show ?thesis by (intro conjI)
qed

text \<open>
  Five hours behind UTC all year: two entries on day 10, one on day 9, none on day 8, one on
  day 7 give the streak 2, the shared date counting once; and entries on days 12, 11 and 10
  give 3.
\<close>

theorem computeStreak_run_capped_witness:
  "orderedByDateDesc
     [\<lparr>date = 10, rating = 4, details = None\<rparr>, \<lparr>date = 10, rating = 2, details = None\<rparr>,
      \<lparr>date = 9, rating = 5, details = None\<rparr>, \<lparr>date = 7, rating = 1, details = None\<rparr>]
   \<and> clockSteady (fixedOffsetZone (- 18000000))
     [\<lparr>date = 10, rating = 4, details = None\<rparr>, \<lparr>date = 10, rating = 2, details = None\<rparr>,
      \<lparr>date = 9, rating = 5, details = None\<rparr>, \<lparr>date = 7, rating = 1, details = None\<rparr>]
   \<and> computeStreak (fixedOffsetZone (- 18000000))
     [\<lparr>date = 10, rating = 4, details = None\<rparr>, \<lparr>date = 10, rating = 2, details = None\<rparr>,
      \<lparr>date = 9, rating = 5, details = None\<rparr>, \<lparr>date = 7, rating = 1, details = None\<rparr>] = 2
   \<and> streakSpec
     [\<lparr>date = 10, rating = 4, details = None\<rparr>, \<lparr>date = 10, rating = 2, details = None\<rparr>,
      \<lparr>date = 9, rating = 5, details = None\<rparr>, \<lparr>date = 7, rating = 1, details = None\<rparr>] = 2
   \<and> computeStreak (fixedOffsetZone (- 18000000))
     [\<lparr>date = 12, rating = 4, details = None\<rparr>, \<lparr>date = 12 - 1, rating = 2, details = None\<rparr>,
      \<lparr>date = 12 - 2, rating = 5, details = None\<rparr>] = 3"
proof -
  let ?z = "fixedOffsetZone (- 18000000)"
  let ?es = "[\<lparr>date = 10, rating = 4, details = None\<rparr>,
      \<lparr>date = 10, rating = 2, details = None\<rparr>,
      \<lparr>date = 9, rating = 5, details = None\<rparr>, \<lparr>date = 7, rating = 1, details = None\<rparr>]"
  let ?three = "[\<lparr>date = 12, rating = 4, details = None\<rparr>,
      \<lparr>date = 12 - 1, rating = 2, details = None\<rparr>, \<lparr>date = 12 - 2, rating = 5, details = None\<rparr>]"
  have h: "orderedByDateDesc ?es" by (simp add: orderedByDateDesc_def)
  have c: "clockSteady ?z ?es" by (rule clockSteady_fixedOffsetZone)
  have c3: "clockSteady ?z ?three" by (rule clockSteady_fixedOffsetZone)
  have s: "streakSpec ?es = 2" by (simp add: streakSpec_def distinctDatesDesc_def)
  note T = computeStreak_run_capped [OF h c, of 12 4 None 2 None 5 None]
  from T have "computeStreak ?z ?es = min 366 (streakSpec ?es)" by blast
  then have a: "computeStreak ?z ?es = 2" unfolding s by simp
  from T c3 have b: "computeStreak ?z ?three = 3" by blast
  from h c a s b show ?thesis by blast
qed

text \<open>
  C1 as the specification states it fails on a run longer than 366 days, in UTC too: with an
  entry on each of 367 days in a row the run is 367 days long and the code reports 366.
\<close>

theorem computeStreak_year_cap_counterexample:
  "orderedByDateDesc (dailyEntries 367)
   \<and> clockSteady utc (dailyEntries 367)
   \<and> streakSpec (dailyEntries 367) = 367
   \<and> computeStreak utc (dailyEntries 367) = 366"
proof -
  have c: "clockSteady utc (dailyEntries 367)"
    unfolding utc_def by (rule clockSteady_fixedOffsetZone)
  from computeStreak_capped [OF ordered_dailyEntries c] c
  show ?thesis by (simp add: streakSpec_dailyEntries ordered_dailyEntries)
qed

section \<open>Absence of data\<close>




lemma entriesByDay_group:
  "g \<in> set (entriesByDay zone es) \<Longrightarrow>
     (averageMood g = None \<longleftrightarrow> entries g = [])
     \<and> (entries g \<noteq> [] \<longrightarrow> averageMood g = Some (average (entries g)))"
  by (auto simp: entriesByDay_def Let_def split: if_splits)



section \<open>Week average\<close>

lemma sumRatings_aux:
  "foldl (\<lambda>total entry. total + rating entry) a es = a + sum_list (map rating es)"
  by (induction es arbitrary: a) auto

lemma sumRatings_sum_list: "sumRatings es = sum_list (map rating es)"
  by (simp add: sumRatings_def sumRatings_aux)

lemma average_meanOf: "average es = toDouble (meanOf (map rating es))"
  by (simp add: average_def meanOf_def sumRatings_sum_list)

lemma set_weekWindow: "set (weekWindow endDate) = {endDate - 6 .. endDate}"
proof -
  have "set (weekWindow endDate) = (\<lambda>k. endDate - int k) ` {0..<7}"
    by (simp add: weekWindow_def)
  also have "\<dots> = {endDate - 6 .. endDate}"
  proof (intro set_eqI iffI)
    fix x assume "x \<in> (\<lambda>k. endDate - int k) ` {0..<7}"
    then show "x \<in> {endDate - 6 .. endDate}" by auto
  next
    fix x assume x: "x \<in> {endDate - 6 .. endDate}"
    then have "x = endDate - int (nat (endDate - x))" "nat (endDate - x) \<in> {0..<7}"
      by auto
    then show "x \<in> (\<lambda>k. endDate - int k) ` {0..<7}" by (rule image_eqI)
  qed
  finally show ?thesis .
qed

lemma historicalWeekAverage_spec:
  "historicalWeekAverage targetDate store = map_option toDouble (weekAverageSpec targetDate store)"
  by (simp add: historicalWeekAverage_def historicalWeekEntries_def weekAverageSpec_def
      set_weekWindow average_meanOf Let_def)

text \<open>
  C3. The week average is the mean over the 7-day inclusive window ending at the given date.
  The historical path computes that mean, as a double (\<open>historicalWeekAverage_spec\<close>); the
  current-week path of \<^verbatim>\<open>refreshMoodData\<close> starts its window 7 days before today and
  so averages over 8 days. With today on day 7, a rating 5 today and a rating 1 on day 0, the
  window of the claim holds only today's entry (mean 5), and the current-week path returns 3.
\<close>

theorem weeklyAverage_eight_days:
  "weeklyAverage 7 [\<lparr>date = 7, rating = 5, details = None\<rparr>, \<lparr>date = 0, rating = 1, details = None\<rparr>]
     = Some 3
   \<and> weekAverageSpec 7 [\<lparr>date = 7, rating = 5, details = None\<rparr>, \<lparr>date = 0, rating = 1, details = None\<rparr>]
     = Some 5
   \<and> historicalWeekAverage 7 [\<lparr>date = 7, rating = 5, details = None\<rparr>, \<lparr>date = 0, rating = 1, details = None\<rparr>]
     = Some 5"
  by code_simp

section \<open>Rounding of the averages\<close>

lemma sum_list_rating_bounds:
  "\<forall>e \<in> set es. 1 \<le> rating e \<and> rating e \<le> 5 \<Longrightarrow>
     int (length es) \<le> sum_list (map rating es) \<and> sum_list (map rating es) \<le> 5 * int (length es)"
  by (induction es) auto

lemma average_bounds:
  assumes "es \<noteq> []" and "\<forall>e \<in> set es. 1 \<le> rating e \<and> rating e \<le> 5"
  shows "1 \<le> average es \<and> average es \<le> 5"
proof -
  have n: "0 < (of_nat (length es) :: rat)" using assms(1) by simp
  from sum_list_rating_bounds [OF assms(2)]
  have "(of_int (int (length es)) :: rat) \<le> of_int (sum_list (map rating es))"
    and "(of_int (sum_list (map rating es)) :: rat) \<le> of_int (5 * int (length es))"
    by (simp_all only: of_int_le_iff)
  then have "1 \<le> meanOf (map rating es) \<and> meanOf (map rating es) \<le> 5"
    using n by (simp add: meanOf_def field_simps)
  then show ?thesis
    unfolding average_meanOf using toDouble_range by blast
qed

lemma Math_round_nonneg:
  "0 \<le> x \<Longrightarrow> Math_round x = roundHalfAwayFromZero x"
  by (simp add: Math_round_def roundHalfAwayFromZero_def)

lemma Math_round_range:
  "1 \<le> x \<Longrightarrow> x \<le> 5 \<Longrightarrow> 1 \<le> Math_round x \<and> Math_round x \<le> 5"
  unfolding Math_round_def by linarith

lemma weeklyMoodRounded_in_range:
  assumes "\<forall>e \<in> set allEntries. 1 \<le> rating e \<and> rating e \<le> 5"
  shows "weeklyMoodRounded (weeklyAverage today allEntries)
    = map_option roundHalfAwayFromZero (weeklyAverage today allEntries)"
proof (cases "currentWeekEntries today allEntries = []")
  case True
  then show ?thesis by (simp add: weeklyAverage_def weeklyMoodRounded_def)
next
  case False
  have "\<forall>e \<in> set (currentWeekEntries today allEntries). 1 \<le> rating e \<and> rating e \<le> 5"
    using assms by (simp add: currentWeekEntries_def)
  from average_bounds [OF False this]
  have b: "1 \<le> average (currentWeekEntries today allEntries)" by simp
  then have "average (currentWeekEntries today allEntries) \<noteq> 0"
    and "Math_round (average (currentWeekEntries today allEntries))
      = roundHalfAwayFromZero (average (currentWeekEntries today allEntries))"
    by (simp_all add: Math_round_nonneg)
  with False show ?thesis by (simp add: weeklyAverage_def weeklyMoodRounded_def)
qed

text \<open>
  C9 (as amended). For every day with at least one entry, ratings being 1 to 5, the day
  average is rounded to the nearest integer, a half going away from zero, at the moment it is
  computed: the rounded integer is the value that is stored and classified for the colour,
  and it is one of the five moods; the unrounded average of the day is not kept. The week
  average is stored unrounded and is rounded, in the same way, only when it is classified.
\<close>

theorem dayAverage_rounded_when_stored:
  assumes "dayEntries \<noteq> []"
    and "\<forall>e \<in> set dayEntries. 1 \<le> rating e \<and> rating e \<le> 5"
    and "\<forall>e \<in> set allEntries. 1 \<le> rating e \<and> rating e \<le> 5"
  shows "dayAverage dayEntries = Some (roundHalfAwayFromZero (average dayEntries))
    \<and> getMoodColor (dayAverage dayEntries) \<in> {mood1, mood2, mood3, mood4, mood5}
    \<and> weeklyAverage today allEntries
        = (if currentWeekEntries today allEntries = [] then None
           else Some (average (currentWeekEntries today allEntries)))
    \<and> weeklyMoodRounded (weeklyAverage today allEntries)
        = map_option roundHalfAwayFromZero (weeklyAverage today allEntries)"
proof -
  from average_bounds [OF assms(1,2)]
  have b: "1 \<le> average dayEntries" "average dayEntries \<le> 5"
    by simp_all
  then have r: "Math_round (average dayEntries) = roundHalfAwayFromZero (average dayEntries)"
    by (intro Math_round_nonneg) simp
  have d: "dayAverage dayEntries = Some (roundHalfAwayFromZero (average dayEntries))"
    using assms(1) r by (simp add: dayAverage_def)
  from Math_round_range [OF b]
  have c: "getMoodColor (dayAverage dayEntries) \<in> {mood1, mood2, mood3, mood4, mood5}"
    using assms(1) by (simp add: dayAverage_def getMoodColor_def)
  have w: "weeklyAverage today allEntries
        = (if currentWeekEntries today allEntries = [] then None
           else Some (average (currentWeekEntries today allEntries)))"
    by (simp add: weeklyAverage_def Let_def)
  have m: "weeklyMoodRounded (weeklyAverage today allEntries)
        = map_option roundHalfAwayFromZero (weeklyAverage today allEntries)"
    by (rule weeklyMoodRounded_in_range [OF assms(3)])
  from d c w m show ?thesis by blast
qed

text \<open>Ratings 3 and 4 on one day: the average 3.5 is stored as 4 and coloured as mood 4.\<close>

theorem dayAverage_rounded_when_stored_witness:
  "average [\<lparr>date = 4, rating = 3, details = None\<rparr>, \<lparr>date = 4, rating = 4, details = None\<rparr>]
     = 7 / 2
   \<and> dayAverage [\<lparr>date = 4, rating = 3, details = None\<rparr>, \<lparr>date = 4, rating = 4, details = None\<rparr>]
     = Some 4
   \<and> getMoodColor
       (dayAverage [\<lparr>date = 4, rating = 3, details = None\<rparr>, \<lparr>date = 4, rating = 4, details = None\<rparr>])
     = mood4
   \<and> weeklyAverage 4 [\<lparr>date = 4, rating = 3, details = None\<rparr>, \<lparr>date = 4, rating = 4, details = None\<rparr>]
     = Some (7 / 2)
   \<and> weeklyMoodRounded
       (weeklyAverage 4 [\<lparr>date = 4, rating = 3, details = None\<rparr>, \<lparr>date = 4, rating = 4, details = None\<rparr>])
     = Some 4"
proof -
  let ?es = "[\<lparr>date = 4, rating = 3, details = None\<rparr>, \<lparr>date = 4, rating = 4, details = None\<rparr>]"
  have h1: "?es \<noteq> []" by simp
  have h2: "\<forall>e \<in> set ?es. 1 \<le> rating e \<and> rating e \<le> 5" by simp
  have av: "average ?es = 7 / 2" by code_simp
  have rd: "roundHalfAwayFromZero (7 / 2) = 4" by code_simp
  have cw: "currentWeekEntries 4 ?es = ?es" by code_simp
  note T = dayAverage_rounded_when_stored [OF h1 h2 h2, of 4]
  from T have "dayAverage ?es = Some (roundHalfAwayFromZero (average ?es))"
    by blast
  then have t1: "dayAverage ?es = Some 4"
    by (simp only: av rd)
  from T have "weeklyAverage 4 ?es
      = (if currentWeekEntries 4 ?es = [] then None
         else Some (average (currentWeekEntries 4 ?es)))"
    by blast
  then have t3: "weeklyAverage 4 ?es = Some (7 / 2)"
    by (simp only: cw av) simp
  from T have "weeklyMoodRounded (weeklyAverage 4 ?es)
      = map_option roundHalfAwayFromZero (weeklyAverage 4 ?es)"
    by blast
  then have t4: "weeklyMoodRounded (weeklyAverage 4 ?es) = Some 4"
    by (simp only: t3 option.map rd)
  have t2: "getMoodColor (dayAverage ?es) = mood4"
    by (simp only: t1) (simp add: getMoodColor_def)
  from av t1 t2 t3 t4 show ?thesis by blast
qed

text \<open>
  C9 as the specification states it fails: the stored day mood is the rounded value, so a
  day averaging 3.5 and a day averaging 4 leave the same value behind and the unrounded 3.5
  is not there to display.
\<close>

theorem dayAverage_raw_not_kept_counterexample:
  "average [\<lparr>date = 4, rating = 3, details = None\<rparr>, \<lparr>date = 4, rating = 4, details = None\<rparr>]
     = 7 / 2
   \<and> dayAverage [\<lparr>date = 4, rating = 3, details = None\<rparr>, \<lparr>date = 4, rating = 4, details = None\<rparr>]
     = Some 4
   \<and> average [\<lparr>date = 4, rating = 4, details = None\<rparr>, \<lparr>date = 4, rating = 4, details = None\<rparr>]
     = 4
   \<and> dayAverage [\<lparr>date = 4, rating = 4, details = None\<rparr>, \<lparr>date = 4, rating = 4, details = None\<rparr>]
     = Some 4"
  by code_simp

section \<open>Weekday groups and patterns\<close>

lemma insertBy_key: "insertBy (\<lambda>a b. f a - f b) x ys = insort_key f x ys"
  by (induction ys) auto

lemma sortBy_key: "sortBy (\<lambda>a b. f a - f b) xs = sort_key f xs"
  by (induction xs) (auto simp: sortBy_def insertBy_key)

lemma sortBy_descending:
  "sortBy (\<lambda>a b. f b - f a) xs = sort_key (\<lambda>x. - f x) xs"
  using sortBy_key [of "\<lambda>x. - f x" xs] by simp



lemma first_sort_key_None: "first (sort_key f xs) = None \<longleftrightarrow> xs = []"
proof (cases xs)
  case Nil
  then show ?thesis by (simp add: first_def)
next
  case (Cons x ys)
  then have "sort_key f xs \<noteq> []"
    by (metis length_sort list.size(3) list.distinct(1) length_0_conv)
  then show ?thesis using Cons by (auto simp: first_def split: list.splits)
qed





lemma highestMoodDay_None:
  "highestMoodDay zone es = None \<longleftrightarrow> (\<forall>g \<in> set (entriesByDay zone es). averageMood g = None)"
  by (simp add: highestMoodDay_def sortBy_descending first_sort_key_None filter_empty_conv)

lemma lowestMoodDay_None:
  "lowestMoodDay zone es = None \<longleftrightarrow> (\<forall>g \<in> set (entriesByDay zone es). averageMood g = None)"
  by (simp add: lowestMoodDay_def sortBy_key first_sort_key_None filter_empty_conv)


lemma getDay_less: "getDay zone d < 7"
  by (simp add: getDay_def nat_less_iff)

lemma weekendPattern_no_group:
  "weekendEntries zone es = [] \<or> weekdayEntries zone es = [] \<Longrightarrow> weekendPattern zone es = []"
  by (auto simp only: weekendPattern_def length_greater_0_conv simp_thms if_False)

lemma entry_in_its_group:
  assumes "e \<in> set es"
  shows "\<exists>g \<in> set (entriesByDay zone es). e \<in> set (entries g)"
proof -
  let ?mk = "\<lambda>d. \<lparr>DayGroup.day = d,
      entries = filter (\<lambda>entry. daysOfWeek ! getDay zone (date entry) = d) es,
      averageMood = (if length (filter (\<lambda>entry. daysOfWeek ! getDay zone (date entry) = d) es) > 0
        then Some (average (filter (\<lambda>entry. daysOfWeek ! getDay zone (date entry) = d) es))
        else None)\<rparr>"
  let ?d = "daysOfWeek ! getDay zone (date e)"
  have eq: "entriesByDay zone es = map ?mk daysOfWeek"
    by (simp add: entriesByDay_def Let_def)
  have "?d \<in> set daysOfWeek"
    using getDay_less [of zone "date e"] by (intro nth_mem) (simp add: daysOfWeek_def)
  then have "?mk ?d \<in> set (entriesByDay zone es)"
    unfolding eq set_map by (rule imageI)
  moreover have "e \<in> set (entries (?mk ?d))" using assms by simp
  ultimately show ?thesis by blast
qed

lemma all_groups_empty_iff:
  "(\<forall>g \<in> set (entriesByDay zone es). averageMood g = None) \<longleftrightarrow> es = []"
proof
  assume a: "\<forall>g \<in> set (entriesByDay zone es). averageMood g = None"
  show "es = []"
  proof (rule ccontr)
    assume "es \<noteq> []"
    then obtain e where "e \<in> set es" by (cases es) auto
    from entry_in_its_group [OF this] obtain g where
      g: "g \<in> set (entriesByDay zone es)" "e \<in> set (entries g)" by blast
    with entriesByDay_group [OF g(1)] a show False by auto
  qed
next
  assume "es = []"
  then show "\<forall>g \<in> set (entriesByDay zone es). averageMood g = None"
    by (simp add: entriesByDay_def)
qed








text \<open>
  C6. When every weekday group is empty, no group is selected as Peak Day or Dip Day, neither
  rule emits a pattern, and the list of patterns is empty.
\<close>

theorem no_pattern_without_data:
  assumes "\<forall>g \<in> set (entriesByDay zone es). averageMood g = None"
  shows "highestMoodDay zone es = None \<and> lowestMoodDay zone es = None
    \<and> peakDayPattern zone es = [] \<and> dipDayPattern zone es = [] \<and> moodPatterns zone es = []"
proof -
  from assms have h: "highestMoodDay zone es = None" and l: "lowestMoodDay zone es = None"
    by (simp_all add: highestMoodDay_None lowestMoodDay_None)
  then have p: "peakDayPattern zone es = []" and d: "dipDayPattern zone es = []"
    by (simp_all add: peakDayPattern_def dipDayPattern_def truthyAverage_def)
  from assms have "es = []" by (simp add: all_groups_empty_iff)
  then have "weekendPattern zone es = []"
    by (intro weekendPattern_no_group) (simp add: weekendEntries_def)
  with h l p d show ?thesis by (simp add: moodPatterns_def)
qed

theorem no_pattern_without_data_witness:
  "map averageMood (entriesByDay utc []) = [None, None, None, None, None, None, None]
   \<and> highestMoodDay utc [] = None \<and> lowestMoodDay utc [] = None \<and> moodPatterns utc [] = []"
proof -
  have a: "map averageMood (entriesByDay utc []) = [None, None, None, None, None, None, None]"
    by code_simp
  have h: "\<forall>g \<in> set (entriesByDay utc []). averageMood g = None"
    by (simp add: entriesByDay_def)
  from no_pattern_without_data [OF h] a show ?thesis by blast
qed

section \<open>The weekend rule\<close>

lemma getDay_east:
  assumes "0 \<le> offsetAtUTC zone (parseDate d)" and "offsetAtUTC zone (parseDate d) < msPerDay"
  shows "getDay zone d = weekdayOfDate d"
proof -
  define off where "off = offsetAtUTC zone (parseDate d)"
  from assms have o: "0 \<le> off" "off < 86400000" by (simp_all add: off_def msPerDay_def)
  then have "off div 86400000 = 0" by simp
  then have "(d * 86400000 + off) div 86400000 = d" by simp
  then have "Day (LocalTime zone (parseDate d)) = d"
    by (simp add: Day_def LocalTime_def parseDate_def msPerDay_def off_def)
  then show ?thesis by (simp add: getDay_def weekdayOfDate_def)
qed

lemma groups_east:
  assumes "atOrEastOfGreenwich zone es"
  shows "weekendEntries zone es = datedWeekend es" and "weekdayEntries zone es = datedWeekdays es"
proof -
  have g: "getDay zone (date e) = weekdayOfDate (date e)" if "e \<in> set es" for e
    using assms that by (intro getDay_east) (simp_all add: atOrEastOfGreenwich_def)
  show "weekendEntries zone es = datedWeekend es"
    unfolding weekendEntries_def datedWeekend_def by (rule filter_cong) (simp_all add: g)
  show "weekdayEntries zone es = datedWeekdays es"
    unfolding weekdayEntries_def datedWeekdays_def by (rule filter_cong) (simp_all add: g)
qed

lemma average_doubleMean: "average es = doubleMean (map rating es)"
  by (simp add: average_def doubleMean_def sumRatings_sum_list)

lemma weekendPattern_unfold:
  assumes "weekendEntries zone es \<noteq> []" and "weekdayEntries zone es \<noteq> []"
  shows "weekendPattern zone es =
     (if \<bar>toDouble (average (weekdayEntries zone es) - average (weekendEntries zone es))\<bar> > 1 / 2
      then
        (if average (weekendEntries zone es) > average (weekdayEntries zone es)
         then [\<lparr>day = ''Weekend'', pattern = ''Weekend Boost'',
                description = ''Your mood tends to improve on weekends by ''
                  @ toFixed1 (toDouble (average (weekendEntries zone es)
                      - average (weekdayEntries zone es)))
                  @ '' points on average.''\<rparr>]
         else [\<lparr>day = ''Weekday'', pattern = ''Weekday Preference'',
                description = ''You tend to have better moods during weekdays compared to weekends by ''
                  @ toFixed1 (toDouble (average (weekdayEntries zone es)
                      - average (weekendEntries zone es)))
                  @ '' points.''\<rparr>])
      else [])"
  using assms
  by (simp only: weekendPattern_def weekdayAvg_def weekendAvg_def length_greater_0_conv if_True
      simp_thms)

subsection \<open>Reading a rendering back\<close>

lemma digitValue_digitChar: "digitValue (digitChar n) = Some (n mod 10)"
proof -
  have "n mod 10 < 10" by simp
  then have "n mod 10 = 0 \<or> n mod 10 = 1 \<or> n mod 10 = 2 \<or> n mod 10 = 3 \<or> n mod 10 = 4
      \<or> n mod 10 = 5 \<or> n mod 10 = 6 \<or> n mod 10 = 7 \<or> n mod 10 = 8 \<or> n mod 10 = 9"
    by arith
  then show ?thesis
    by (elim disjE) (simp_all add: digitValue_def digitChar_def upt_rec)
qed

lemma digitsValue_decimal: "digitsValue (rev (decimal n)) = Some n"
proof (induction n rule: decimal.induct)
  case (1 n)
  show ?case
  proof (cases "n < 10")
    case True
    then show ?thesis
      by (simp add: decimal.simps [of n] digitValue_digitChar)
  next
    case False
    with 1 have "digitsValue (rev (decimal (n div 10))) = Some (n div 10)" by simp
    with False show ?thesis
      by (simp add: decimal.simps [of n] digitValue_digitChar)
  qed
qed

lemma decimal_nonempty: "decimal n \<noteq> []"
  by (simp add: decimal.simps [of n])

lemma toFixed1_reads_back:
  assumes "0 \<le> x"
  shows "\<exists>v. oneDecimalValue (toFixed1 x) = Some v \<and> - (1 / 20) < v - x \<and> v - x \<le> 1 / 20"
proof -
  define n where "n = nat \<lfloor>x * 10 + 1 / 2\<rfloor>"
  from assms have ax: "\<bar>x\<bar> = x" and nx: "\<not> x < 0" by simp_all
  have tf: "toFixed1 x = decimal (n div 10) @ ''.'' @ [digitChar n]"
    unfolding toFixed1_def Let_def ax n_def [symmetric] using nx by simp
  have "digitsValue (digitChar n # rev (decimal (n div 10))) = Some (n mod 10 + 10 * (n div 10))"
    by (simp add: digitValue_digitChar digitsValue_decimal)
  then have dv: "digitsValue (digitChar n # rev (decimal (n div 10))) = Some n" by simp
  have rv: "rev (decimal (n div 10) @ ''.'' @ [digitChar n])
      = digitChar n # CHR ''.'' # rev (decimal (n div 10))"
    by simp
  have ov: "oneDecimalValue (toFixed1 x) = Some (of_nat n / 10)"
    unfolding tf oneDecimalValue_def rv
    by (simp add: dv decimal_nonempty del: digitsValue.simps)
  have fl: "0 \<le> \<lfloor>x * 10 + 1 / 2\<rfloor>" using assms by simp
  then have "(of_nat n :: rat) = of_int \<lfloor>x * 10 + 1 / 2\<rfloor>" by (simp add: n_def)
  moreover have "of_int \<lfloor>x * 10 + 1 / 2\<rfloor> \<le> x * 10 + 1 / 2"
    and "x * 10 + 1 / 2 < of_int \<lfloor>x * 10 + 1 / 2\<rfloor> + 1"
    using floor_correct [of "x * 10 + 1 / 2"] by simp_all
  ultimately have "- (1 / 20) < of_nat n / 10 - x \<and> of_nat n / 10 - x \<le> 1 / 20"
    by (simp add: field_simps)
  with ov show ?thesis by blast
qed

lemma peak_dip_not_weekend_boost:
  "filter (\<lambda>p. pattern p = ''Weekend Boost'') (peakDayPattern zone es) = []"
  "filter (\<lambda>p. pattern p = ''Weekend Boost'') (dipDayPattern zone es) = []"
  by (simp_all add: peakDayPattern_def dipDayPattern_def split: option.splits prod.splits)

lemma weekendPattern_east:
  assumes "atOrEastOfGreenwich zone es"
    and "datedWeekend es \<noteq> []" and "datedWeekdays es \<noteq> []"
  shows "weekendPattern zone es =
     (if \<bar>toDouble (doubleMean (map rating (datedWeekdays es))
            - doubleMean (map rating (datedWeekend es)))\<bar> > 1 / 2
      then
        (if doubleMean (map rating (datedWeekend es)) > doubleMean (map rating (datedWeekdays es))
         then [\<lparr>day = ''Weekend'', pattern = ''Weekend Boost'',
                description = ''Your mood tends to improve on weekends by ''
                  @ toFixed1 (toDouble (doubleMean (map rating (datedWeekend es))
                      - doubleMean (map rating (datedWeekdays es))))
                  @ '' points on average.''\<rparr>]
         else [\<lparr>day = ''Weekday'', pattern = ''Weekday Preference'',
                description = ''You tend to have better moods during weekdays compared to weekends by ''
                  @ toFixed1 (toDouble (doubleMean (map rating (datedWeekdays es))
                      - doubleMean (map rating (datedWeekend es))))
                  @ '' points.''\<rparr>])
      else [])"
proof -
  note g = groups_east [OF assms(1)]
  have ne: "weekendEntries zone es \<noteq> []" "weekdayEntries zone es \<noteq> []"
    unfolding g by (fact assms(2), fact assms(3))
  show ?thesis
    unfolding weekendPattern_unfold [OF ne] g average_doubleMean ..
qed

lemma weekendPattern_east_emitted:
  assumes "atOrEastOfGreenwich zone es"
  shows "weekendPattern zone es \<noteq> [] \<longleftrightarrow>
      datedWeekend es \<noteq> [] \<and> datedWeekdays es \<noteq> []
      \<and> 1 / 2 < \<bar>toDouble (doubleMean (map rating (datedWeekdays es))
            - doubleMean (map rating (datedWeekend es)))\<bar>"
proof (cases "datedWeekend es = [] \<or> datedWeekdays es = []")
  case True
  then have "weekendEntries zone es = [] \<or> weekdayEntries zone es = []"
    by (simp only: groups_east [OF assms])
  from weekendPattern_no_group [OF this] True show ?thesis by blast
next
  case False
  then have ne: "datedWeekend es \<noteq> []" "datedWeekdays es \<noteq> []" by simp_all
  show ?thesis
  proof (cases "1 / 2 < \<bar>toDouble (doubleMean (map rating (datedWeekdays es))
            - doubleMean (map rating (datedWeekend es)))\<bar>")
    case True
    then have "weekendPattern zone es \<noteq> []"
      unfolding weekendPattern_east [OF assms ne] by (simp only: if_True split: if_split) blast
    with ne True show ?thesis by blast
  next
    case False
    then have "weekendPattern zone es = []"
      unfolding weekendPattern_east [OF assms ne] by (simp only: if_False)
    with False show ?thesis by blast
  qed
qed

lemma weekendPattern_east_boost:
  assumes "atOrEastOfGreenwich zone es" and "weekendPattern zone es \<noteq> []"
    and "doubleMean (map rating (datedWeekend es)) > doubleMean (map rating (datedWeekdays es))"
  shows "\<exists>v. weekendPattern zone es =
        [\<lparr>day = ''Weekend'', pattern = ''Weekend Boost'',
          description = ''Your mood tends to improve on weekends by ''
            @ toFixed1 \<bar>toDouble (doubleMean (map rating (datedWeekend es))
                - doubleMean (map rating (datedWeekdays es)))\<bar>
            @ '' points on average.''\<rparr>]
      \<and> oneDecimalValue (toFixed1 \<bar>toDouble (doubleMean (map rating (datedWeekend es))
                - doubleMean (map rating (datedWeekdays es)))\<bar>) = Some v
      \<and> - (1 / 20) < v - \<bar>toDouble (doubleMean (map rating (datedWeekend es))
                - doubleMean (map rating (datedWeekdays es)))\<bar>
      \<and> v - \<bar>toDouble (doubleMean (map rating (datedWeekend es))
                - doubleMean (map rating (datedWeekdays es)))\<bar> \<le> 1 / 20"
proof -
  let ?x = "toDouble (doubleMean (map rating (datedWeekend es))
      - doubleMean (map rating (datedWeekdays es)))"
  from weekendPattern_east_emitted [OF assms(1)] assms(2)
  have ne: "datedWeekend es \<noteq> []" "datedWeekdays es \<noteq> []"
    and t: "1 / 2 < \<bar>toDouble (doubleMean (map rating (datedWeekdays es))
            - doubleMean (map rating (datedWeekend es)))\<bar>"
    by blast+
  have "0 \<le> ?x" using assms(3) by (intro toDouble_nonneg) simp
  then have ab: "\<bar>?x\<bar> = ?x" by simp
  have p: "weekendPattern zone es =
        [\<lparr>day = ''Weekend'', pattern = ''Weekend Boost'',
          description = ''Your mood tends to improve on weekends by ''
            @ toFixed1 \<bar>?x\<bar> @ '' points on average.''\<rparr>]"
    unfolding weekendPattern_east [OF assms(1) ne] ab using t assms(3) by (simp only: if_True)
  from toFixed1_reads_back [of "\<bar>?x\<bar>"] obtain v where
    "oneDecimalValue (toFixed1 \<bar>?x\<bar>) = Some v" "- (1 / 20) < v - \<bar>?x\<bar>" "v - \<bar>?x\<bar> \<le> 1 / 20"
    by auto
  with p show ?thesis by blast
qed

lemma weekendPattern_east_preference:
  assumes "atOrEastOfGreenwich zone es" and "weekendPattern zone es \<noteq> []"
    and "doubleMean (map rating (datedWeekdays es)) > doubleMean (map rating (datedWeekend es))"
  shows "\<exists>v. weekendPattern zone es =
        [\<lparr>day = ''Weekday'', pattern = ''Weekday Preference'',
          description = ''You tend to have better moods during weekdays compared to weekends by ''
            @ toFixed1 \<bar>toDouble (doubleMean (map rating (datedWeekdays es))
                - doubleMean (map rating (datedWeekend es)))\<bar>
            @ '' points.''\<rparr>]
      \<and> oneDecimalValue (toFixed1 \<bar>toDouble (doubleMean (map rating (datedWeekdays es))
                - doubleMean (map rating (datedWeekend es)))\<bar>) = Some v
      \<and> - (1 / 20) < v - \<bar>toDouble (doubleMean (map rating (datedWeekdays es))
                - doubleMean (map rating (datedWeekend es)))\<bar>
      \<and> v - \<bar>toDouble (doubleMean (map rating (datedWeekdays es))
                - doubleMean (map rating (datedWeekend es)))\<bar> \<le> 1 / 20"
proof -
  let ?x = "toDouble (doubleMean (map rating (datedWeekdays es))
      - doubleMean (map rating (datedWeekend es)))"
  from weekendPattern_east_emitted [OF assms(1)] assms(2)
  have ne: "datedWeekend es \<noteq> []" "datedWeekdays es \<noteq> []"
    and t: "1 / 2 < \<bar>?x\<bar>"
    by blast+
  have "0 \<le> ?x" using assms(3) by (intro toDouble_nonneg) simp
  then have ab: "\<bar>?x\<bar> = ?x" by simp
  from assms(3)
  have no: "\<not> doubleMean (map rating (datedWeekend es)) > doubleMean (map rating (datedWeekdays es))"
    by simp
  have p: "weekendPattern zone es =
        [\<lparr>day = ''Weekday'', pattern = ''Weekday Preference'',
          description = ''You tend to have better moods during weekdays compared to weekends by ''
            @ toFixed1 \<bar>?x\<bar> @ '' points.''\<rparr>]"
    unfolding weekendPattern_east [OF assms(1) ne] using t no unfolding ab
    by (simp only: if_True if_False)
  from toFixed1_reads_back [of "\<bar>?x\<bar>"] obtain v where
    "oneDecimalValue (toFixed1 \<bar>?x\<bar>) = Some v" "- (1 / 20) < v - \<bar>?x\<bar>" "v - \<bar>?x\<bar> \<le> 1 / 20"
    by auto
  with p show ?thesis by blast
qed

lemma doubleMean_fives: "doubleMean [5, 5, 5] = 5" and doubleMean_ones: "doubleMean [1, 1, 1] = 1"
  and toDouble_four: "toDouble (5 - 1) = 4" and toDouble_minus_four: "toDouble (1 - 5) = - 4"
  and toFixed1_four: "toFixed1 4 = ''4.0''"
  by code_simp+

lemma weekend_example:
  assumes "atOrEastOfGreenwich zone es"
    and "map rating (datedWeekend es) = [5, 5, 5]"
    and "map rating (datedWeekdays es) = [1, 1, 1]"
  shows "filter (\<lambda>p. pattern p = ''Weekend Boost'') (moodPatterns zone es) =
     [\<lparr>day = ''Weekend'', pattern = ''Weekend Boost'',
       description = ''Your mood tends to improve on weekends by 4.0 points on average.''\<rparr>]"
proof -
  have ne: "datedWeekend es \<noteq> []" "datedWeekdays es \<noteq> []"
    using assms(2,3) by auto
  have "weekendPattern zone es =
     [\<lparr>day = ''Weekend'', pattern = ''Weekend Boost'',
       description = ''Your mood tends to improve on weekends by 4.0 points on average.''\<rparr>]"
    unfolding weekendPattern_east [OF assms(1) ne] assms(2,3) doubleMean_fives doubleMean_ones
      toDouble_four toDouble_minus_four toFixed1_four
    by simp
  then show ?thesis
    by (simp add: moodPatterns_def peak_dip_not_weekend_boost)
qed

text \<open>
  West of Greenwich the local clock at midnight UTC still shows the day before: five hours
  behind UTC an entry dated on the Saturday 1970-01-03 is read as a Friday.
\<close>

lemma getDay_west_of_Greenwich:
  "weekdayOfDate 2 = 6 \<and> getDay utc 2 = 6 \<and> getDay (fixedOffsetZone (- 18000000)) 2 = 5"
  by code_simp

text \<open>
  C4 (as amended). On a device at or east of Greenwich, the weekend rule emits a pattern
  exactly when both the entries dated on a Saturday or Sunday and the entries dated Monday to
  Friday are non-empty and the absolute difference of their mean ratings exceeds 0.5, the two
  means and their difference being computed in double precision. It emits Weekend Boost when
  the weekend mean is the higher one and Weekday Preference when the weekday mean is, and the
  description carries the absolute difference to one decimal place: the digits read back as
  the tenth nearest to that double. Ratings 5, 5, 5 on the weekend and 1, 1, 1 on weekdays
  give exactly one pattern tagged Weekend Boost, and its description contains 4.0.
\<close>

theorem weekend_rule:
  assumes "atOrEastOfGreenwich zone es"
  shows
   "(weekendPattern zone es \<noteq> [] \<longleftrightarrow>
      datedWeekend es \<noteq> [] \<and> datedWeekdays es \<noteq> []
      \<and> 1 / 2 < \<bar>toDouble (doubleMean (map rating (datedWeekdays es))
            - doubleMean (map rating (datedWeekend es)))\<bar>)
   \<and> (weekendPattern zone es \<noteq> []
        \<and> doubleMean (map rating (datedWeekend es)) > doubleMean (map rating (datedWeekdays es))
      \<longrightarrow>
      (\<exists>v. weekendPattern zone es =
          [\<lparr>day = ''Weekend'', pattern = ''Weekend Boost'',
            description = ''Your mood tends to improve on weekends by ''
              @ toFixed1 \<bar>toDouble (doubleMean (map rating (datedWeekend es))
                  - doubleMean (map rating (datedWeekdays es)))\<bar>
              @ '' points on average.''\<rparr>]
        \<and> oneDecimalValue (toFixed1 \<bar>toDouble (doubleMean (map rating (datedWeekend es))
                  - doubleMean (map rating (datedWeekdays es)))\<bar>) = Some v
        \<and> - (1 / 20) < v - \<bar>toDouble (doubleMean (map rating (datedWeekend es))
                  - doubleMean (map rating (datedWeekdays es)))\<bar>
        \<and> v - \<bar>toDouble (doubleMean (map rating (datedWeekend es))
                  - doubleMean (map rating (datedWeekdays es)))\<bar> \<le> 1 / 20))
   \<and> (weekendPattern zone es \<noteq> []
        \<and> doubleMean (map rating (datedWeekdays es)) > doubleMean (map rating (datedWeekend es))
      \<longrightarrow>
      (\<exists>v. weekendPattern zone es =
          [\<lparr>day = ''Weekday'', pattern = ''Weekday Preference'',
            description = ''You tend to have better moods during weekdays compared to weekends by ''
              @ toFixed1 \<bar>toDouble (doubleMean (map rating (datedWeekdays es))
                  - doubleMean (map rating (datedWeekend es)))\<bar>
              @ '' points.''\<rparr>]
        \<and> oneDecimalValue (toFixed1 \<bar>toDouble (doubleMean (map rating (datedWeekdays es))
                  - doubleMean (map rating (datedWeekend es)))\<bar>) = Some v
        \<and> - (1 / 20) < v - \<bar>toDouble (doubleMean (map rating (datedWeekdays es))
                  - doubleMean (map rating (datedWeekend es)))\<bar>
        \<and> v - \<bar>toDouble (doubleMean (map rating (datedWeekdays es))
                  - doubleMean (map rating (datedWeekend es)))\<bar> \<le> 1 / 20))
   \<and> (map rating (datedWeekend es) = [5, 5, 5] \<and> map rating (datedWeekdays es) = [1, 1, 1]
        \<longrightarrow>
      filter (\<lambda>p. pattern p = ''Weekend Boost'') (moodPatterns zone es) =
        [\<lparr>day = ''Weekend'', pattern = ''Weekend Boost'',
          description = ''Your mood tends to improve on weekends by 4.0 points on average.''\<rparr>]
      \<and> String_includes ''Your mood tends to improve on weekends by 4.0 points on average.''
            ''4.0'')"
proof -
  note 1 = weekendPattern_east_emitted [OF assms]
  have 2: "weekendPattern zone es \<noteq> []
        \<and> doubleMean (map rating (datedWeekend es)) > doubleMean (map rating (datedWeekdays es))
      \<longrightarrow>
      (\<exists>v. weekendPattern zone es =
          [\<lparr>day = ''Weekend'', pattern = ''Weekend Boost'',
            description = ''Your mood tends to improve on weekends by ''
              @ toFixed1 \<bar>toDouble (doubleMean (map rating (datedWeekend es))
                  - doubleMean (map rating (datedWeekdays es)))\<bar>
              @ '' points on average.''\<rparr>]
        \<and> oneDecimalValue (toFixed1 \<bar>toDouble (doubleMean (map rating (datedWeekend es))
                  - doubleMean (map rating (datedWeekdays es)))\<bar>) = Some v
        \<and> - (1 / 20) < v - \<bar>toDouble (doubleMean (map rating (datedWeekend es))
                  - doubleMean (map rating (datedWeekdays es)))\<bar>
        \<and> v - \<bar>toDouble (doubleMean (map rating (datedWeekend es))
                  - doubleMean (map rating (datedWeekdays es)))\<bar> \<le> 1 / 20)"
    using weekendPattern_east_boost [OF assms] by (intro impI) (elim conjE)
  have 3: "weekendPattern zone es \<noteq> []
        \<and> doubleMean (map rating (datedWeekdays es)) > doubleMean (map rating (datedWeekend es))
      \<longrightarrow>
      (\<exists>v. weekendPattern zone es =
          [\<lparr>day = ''Weekday'', pattern = ''Weekday Preference'',
            description = ''You tend to have better moods during weekdays compared to weekends by ''
              @ toFixed1 \<bar>toDouble (doubleMean (map rating (datedWeekdays es))
                  - doubleMean (map rating (datedWeekend es)))\<bar>
              @ '' points.''\<rparr>]
        \<and> oneDecimalValue (toFixed1 \<bar>toDouble (doubleMean (map rating (datedWeekdays es))
                  - doubleMean (map rating (datedWeekend es)))\<bar>) = Some v
        \<and> - (1 / 20) < v - \<bar>toDouble (doubleMean (map rating (datedWeekdays es))
                  - doubleMean (map rating (datedWeekend es)))\<bar>
        \<and> v - \<bar>toDouble (doubleMean (map rating (datedWeekdays es))
                  - doubleMean (map rating (datedWeekend es)))\<bar> \<le> 1 / 20)"
    using weekendPattern_east_preference [OF assms] by (intro impI) (elim conjE)
  have inc: "String_includes ''Your mood tends to improve on weekends by 4.0 points on average.''
      ''4.0''"
    by code_simp
  have 4: "map rating (datedWeekend es) = [5, 5, 5] \<and> map rating (datedWeekdays es) = [1, 1, 1]
        \<longrightarrow>
      filter (\<lambda>p. pattern p = ''Weekend Boost'') (moodPatterns zone es) =
        [\<lparr>day = ''Weekend'', pattern = ''Weekend Boost'',
          description = ''Your mood tends to improve on weekends by 4.0 points on average.''\<rparr>]
      \<and> String_includes ''Your mood tends to improve on weekends by 4.0 points on average.''
            ''4.0''"
    using weekend_example [OF assms] inc by (intro impI conjI) (elim conjE)
  from 1 2 3 4 show ?thesis by (intro conjI)
qed

text \<open>
  In UTC: the sample with 5, 5, 5 on the weekend and 1, 1, 1 on weekdays; the sample with
  weekend mean 12/5 and weekday mean 10/8, whose double difference lies just below 1.15 and
  is written 1.1; and the sample with a low weekend (mean 1.5) and high weekdays (mean 4.5).
\<close>

theorem weekend_rule_witness:
  "atOrEastOfGreenwich utc weekendBoostSample
   \<and> map rating (datedWeekend weekendBoostSample) = [5, 5, 5]
   \<and> map rating (datedWeekdays weekendBoostSample) = [1, 1, 1]
   \<and> filter (\<lambda>p. pattern p = ''Weekend Boost'') (moodPatterns utc weekendBoostSample) =
        [\<lparr>day = ''Weekend'', pattern = ''Weekend Boost'',
          description = ''Your mood tends to improve on weekends by 4.0 points on average.''\<rparr>]
   \<and> atOrEastOfGreenwich utc tenthSample
   \<and> map rating (datedWeekend tenthSample) = [2, 2, 2, 3, 3]
   \<and> map rating (datedWeekdays tenthSample) = [1, 1, 1, 1, 1, 1, 2, 2]
   \<and> weekendPattern utc tenthSample =
        [\<lparr>day = ''Weekend'', pattern = ''Weekend Boost'',
          description = ''Your mood tends to improve on weekends by 1.1 points on average.''\<rparr>]
   \<and> atOrEastOfGreenwich utc weekdayPreferenceSample
   \<and> weekendPattern utc weekdayPreferenceSample =
        [\<lparr>day = ''Weekday'', pattern = ''Weekday Preference'',
          description =
            ''You tend to have better moods during weekdays compared to weekends by 3.0 points.''\<rparr>]"
proof -
  have east: "atOrEastOfGreenwich utc es" for es
    by (simp add: atOrEastOfGreenwich_def utc_def fixedOffsetZone_def msPerDay_def)
  have a: "map rating (datedWeekend weekendBoostSample) = [5, 5, 5]"
    and b: "map rating (datedWeekdays weekendBoostSample) = [1, 1, 1]"
    by code_simp+
  from weekend_rule [OF east, of weekendBoostSample] a b
  have c: "filter (\<lambda>p. pattern p = ''Weekend Boost'') (moodPatterns utc weekendBoostSample) =
        [\<lparr>day = ''Weekend'', pattern = ''Weekend Boost'',
          description = ''Your mood tends to improve on weekends by 4.0 points on average.''\<rparr>]"
    by blast
  have ta: "map rating (datedWeekend tenthSample) = [2, 2, 2, 3, 3]"
    and tb: "map rating (datedWeekdays tenthSample) = [1, 1, 1, 1, 1, 1, 2, 2]"
    by code_simp+
  have tne: "datedWeekend tenthSample \<noteq> []" "datedWeekdays tenthSample \<noteq> []"
    using ta tb by auto
  have tt: "1 / 2 < \<bar>toDouble (doubleMean [1, 1, 1, 1, 1, 1, 2, 2] - doubleMean [2, 2, 2, 3, 3])\<bar>"
    and th: "doubleMean [2, 2, 2, 3, 3] > doubleMean [1, 1, 1, 1, 1, 1, 2, 2]"
    and tr: "toFixed1 \<bar>toDouble (doubleMean [2, 2, 2, 3, 3] - doubleMean [1, 1, 1, 1, 1, 1, 2, 2])\<bar>
      = ''1.1''"
    by code_simp+
  note T = weekend_rule [OF east, of tenthSample]
  from T tne tt have te: "weekendPattern utc tenthSample \<noteq> []"
    unfolding ta tb by blast
  from T te th have "\<exists>v. weekendPattern utc tenthSample =
          [\<lparr>day = ''Weekend'', pattern = ''Weekend Boost'',
            description = ''Your mood tends to improve on weekends by ''
              @ toFixed1 \<bar>toDouble (doubleMean (map rating (datedWeekend tenthSample))
                  - doubleMean (map rating (datedWeekdays tenthSample)))\<bar>
              @ '' points on average.''\<rparr>]
        \<and> oneDecimalValue (toFixed1 \<bar>toDouble (doubleMean (map rating (datedWeekend tenthSample))
                  - doubleMean (map rating (datedWeekdays tenthSample)))\<bar>) = Some v
        \<and> - (1 / 20) < v - \<bar>toDouble (doubleMean (map rating (datedWeekend tenthSample))
                  - doubleMean (map rating (datedWeekdays tenthSample)))\<bar>
        \<and> v - \<bar>toDouble (doubleMean (map rating (datedWeekend tenthSample))
                  - doubleMean (map rating (datedWeekdays tenthSample)))\<bar> \<le> 1 / 20"
    unfolding ta tb by blast
  then have d: "weekendPattern utc tenthSample =
        [\<lparr>day = ''Weekend'', pattern = ''Weekend Boost'',
          description = ''Your mood tends to improve on weekends by 1.1 points on average.''\<rparr>]"
    unfolding ta tb tr by auto
  have pa: "map rating (datedWeekend weekdayPreferenceSample) = [1, 2]"
    and pb: "map rating (datedWeekdays weekdayPreferenceSample) = [4, 5]"
    by code_simp+
  have pne: "datedWeekend weekdayPreferenceSample \<noteq> []"
      "datedWeekdays weekdayPreferenceSample \<noteq> []"
    using pa pb by auto
  have pt: "1 / 2 < \<bar>toDouble (doubleMean [4, 5] - doubleMean [1, 2])\<bar>"
    and ph: "doubleMean [4, 5] > doubleMean [1, 2]"
    and pr: "toFixed1 \<bar>toDouble (doubleMean [4, 5] - doubleMean [1, 2])\<bar> = ''3.0''"
    by code_simp+
  note P = weekend_rule [OF east, of weekdayPreferenceSample]
  from P pne pt have pe: "weekendPattern utc weekdayPreferenceSample \<noteq> []"
    unfolding pa pb by blast
  from P pe ph have "\<exists>v. weekendPattern utc weekdayPreferenceSample =
          [\<lparr>day = ''Weekday'', pattern = ''Weekday Preference'',
            description = ''You tend to have better moods during weekdays compared to weekends by ''
              @ toFixed1 \<bar>toDouble (doubleMean (map rating (datedWeekdays weekdayPreferenceSample))
                  - doubleMean (map rating (datedWeekend weekdayPreferenceSample)))\<bar>
              @ '' points.''\<rparr>]
        \<and> oneDecimalValue (toFixed1 \<bar>toDouble
                (doubleMean (map rating (datedWeekdays weekdayPreferenceSample))
                  - doubleMean (map rating (datedWeekend weekdayPreferenceSample)))\<bar>) = Some v
        \<and> - (1 / 20) < v - \<bar>toDouble (doubleMean (map rating (datedWeekdays weekdayPreferenceSample))
                  - doubleMean (map rating (datedWeekend weekdayPreferenceSample)))\<bar>
        \<and> v - \<bar>toDouble (doubleMean (map rating (datedWeekdays weekdayPreferenceSample))
                  - doubleMean (map rating (datedWeekend weekdayPreferenceSample)))\<bar> \<le> 1 / 20"
    unfolding pa pb by blast
  then have e: "weekendPattern utc weekdayPreferenceSample =
        [\<lparr>day = ''Weekday'', pattern = ''Weekday Preference'',
          description =
            ''You tend to have better moods during weekdays compared to weekends by 3.0 points.''\<rparr>]"
    unfolding pa pb pr by auto
  from east a b c ta tb d e show ?thesis by (intro conjI)
qed

text \<open>
  C4 as the specification states it fails where the means differ by exactly one half: with
  weekend mean 11/6 and weekday mean 14/6 the difference does not exceed 0.5, and the code,
  computing in doubles, finds it greater and emits Weekday Preference with 0.5.
\<close>

theorem weekend_rule_half_point_counterexample:
  "meanOf (map rating (datedWeekdays halfPointSample)) = 14 / 6
   \<and> meanOf (map rating (datedWeekend halfPointSample)) = 11 / 6
   \<and> \<bar>meanOf (map rating (datedWeekend halfPointSample))
        - meanOf (map rating (datedWeekdays halfPointSample))\<bar> = 1 / 2
   \<and> weekendPattern utc halfPointSample =
        [\<lparr>day = ''Weekday'', pattern = ''Weekday Preference'',
          description =
            ''You tend to have better moods during weekdays compared to weekends by 0.5 points.''\<rparr>]"
  by code_simp

section \<open>Triggers\<close>

subsection \<open>One word, one list of words, one entry\<close>

lemma keys_checkWord:
  "map fst (checkWord ty l r T w) = (if String_includes l w then noteNew (map fst T) w else map fst T)"
  by (simp add: checkWord_def noteNew_def AList.update_keys)

lemma map_of_checkWord:
  "map_of (checkWord ty l r T w) v =
     (if v = w \<and> String_includes l w then Some (recordHit ty r (map_of T w)) else map_of T v)"
  by (simp add: checkWord_def AList.update_conv')

lemma keys_scanWords:
  "map fst (foldl (checkWord ty l r) T ws)
     = foldl noteNew (map fst T) (filter (String_includes l) ws)"
  by (induction ws arbitrary: T) (simp_all add: keys_checkWord)

lemma map_of_scanWords:
  "distinct ws \<Longrightarrow>
   map_of (foldl (checkWord ty l r) T ws) v =
     (if v \<in> set ws \<and> String_includes l v then Some (recordHit ty r (map_of T v)) else map_of T v)"
proof (induction ws arbitrary: T)
  case Nil
  then show ?case by simp
next
  case (Cons w ws)
  then have d: "distinct ws" and nw: "w \<notin> set ws" by simp_all
  show ?case
    using nw by (auto simp: Cons.IH [OF d] map_of_checkWord)
qed

lemma distinct_vocabulary: "distinct vocabulary"
  by (simp add: vocabulary_def positiveWords_def negativeWords_def)

lemma distinct_positiveWords: "distinct positiveWords"
  using distinct_vocabulary by (simp add: vocabulary_def)

lemma distinct_negativeWords: "distinct negativeWords"
  using distinct_vocabulary by (simp add: vocabulary_def)

lemma negative_not_positive: "w \<in> set negativeWords \<Longrightarrow> w \<notin> set positiveWords"
  using distinct_vocabulary by (auto simp: vocabulary_def)

lemma scanEntry_silent: "\<not> (\<exists>body. details e = Some body \<and> body \<noteq> []) \<Longrightarrow> scanEntry T e = T"
  by (auto simp: scanEntry_def split: option.splits)

lemma mentions_silent: "\<not> (\<exists>body. details e = Some body \<and> body \<noteq> []) \<Longrightarrow> \<not> mentions e w"
  by (auto simp: mentions_def split: option.splits)

lemma keys_scanEntry:
  "map fst (scanEntry T e) = foldl noteNew (map fst T) (filter (mentions e) vocabulary)"
proof (cases "\<exists>body. details e = Some body \<and> body \<noteq> []")
  case False
  have "filter (mentions e) vocabulary = []"
    using mentions_silent [OF False] by (simp add: filter_empty_conv)
  with scanEntry_silent [OF False] show ?thesis by simp
next
  case True
  then obtain body where t: "details e = Some body" "body \<noteq> []" by blast
  then have m: "mentions e = String_includes (toLowerCase body)"
    by (intro ext) (simp add: mentions_def)
  show ?thesis
    using t by (simp add: scanEntry_def Let_def keys_scanWords m vocabulary_def)
qed

lemma map_of_scanEntry:
  "map_of (scanEntry T e) w =
     (if w \<in> set vocabulary \<and> mentions e w
      then Some (recordHit (polarity w) (rating e) (map_of T w)) else map_of T w)"
proof (cases "\<exists>body. details e = Some body \<and> body \<noteq> []")
  case False
  with scanEntry_silent [OF False] mentions_silent [OF False] show ?thesis by simp
next
  case True
  then obtain body where t: "details e = Some body" "body \<noteq> []" by blast
  then have m: "mentions e = String_includes (toLowerCase body)"
    by (intro ext) (simp add: mentions_def)
  show ?thesis
    using t negative_not_positive [of w]
    by (auto simp: scanEntry_def Let_def m vocabulary_def polarity_def
        map_of_scanWords [OF distinct_positiveWords] map_of_scanWords [OF distinct_negativeWords])
qed

subsection \<open>The whole scan\<close>

lemma collectTriggers_snoc: "collectTriggers (es @ [e]) = scanEntry (collectTriggers es) e"
  by (simp add: collectTriggers_def)

lemma encounterOrder_snoc:
  "encounterOrder (es @ [e]) = foldl noteNew (encounterOrder es) (filter (mentions e) vocabulary)"
  by (simp add: encounterOrder_def)

lemma keys_collectTriggers: "map fst (collectTriggers es) = encounterOrder es"
proof (induction es rule: rev_induct)
  case Nil
  then show ?case by (simp add: collectTriggers_def encounterOrder_def)
next
  case (snoc e es)
  then show ?case by (simp add: collectTriggers_snoc encounterOrder_snoc keys_scanEntry)
qed

lemma set_foldl_noteNew: "set (foldl noteNew ks ws) = set ks \<union> set ws"
  by (induction ws arbitrary: ks) (auto simp: noteNew_def)

lemma distinct_foldl_noteNew: "distinct ks \<Longrightarrow> distinct (foldl noteNew ks ws)"
  by (induction ws arbitrary: ks) (auto simp: noteNew_def)

lemma set_encounterOrder:
  "set (encounterOrder es) = {w \<in> set vocabulary. \<exists>e \<in> set es. mentions e w}"
  by (auto simp: encounterOrder_def set_foldl_noteNew)

lemma distinct_encounterOrder: "distinct (encounterOrder es)"
  by (simp add: encounterOrder_def distinct_foldl_noteNew)

lemma occurrences_snoc:
  "occurrences (es @ [e]) w = occurrences es w + (if mentions e w then 1 else 0)"
  by (simp add: occurrences_def)

lemma ratingTotal_snoc:
  "ratingTotal (es @ [e]) w = ratingTotal es w + (if mentions e w then rating e else 0)"
  by (simp add: ratingTotal_def)

lemma occurrences_zero: "occurrences es w = 0 \<longleftrightarrow> (\<forall>e \<in> set es. \<not> mentions e w)"
  by (simp add: occurrences_def filter_empty_conv)

lemma ratingTotal_unmentioned: "\<forall>e \<in> set es. \<not> mentions e w \<Longrightarrow> ratingTotal es w = 0"
proof -
  assume "\<forall>e \<in> set es. \<not> mentions e w"
  then have "filter (\<lambda>entry. mentions entry w) es = []" by (simp add: filter_empty_conv)
  then show ?thesis by (simp add: ratingTotal_def)
qed

lemma map_of_collectTriggers:
  "map_of (collectTriggers es) w
     = (if w \<in> set (encounterOrder es) then Some (wordData es w) else None)"
proof (induction es rule: rev_induct)
  case Nil
  then show ?case by (simp add: collectTriggers_def encounterOrder_def)
next
  case (snoc e es)
  show ?case
  proof (cases "w \<in> set vocabulary \<and> mentions e w")
    case False
    then have same: "wordData (es @ [e]) w = wordData es w" if "w \<in> set vocabulary"
      using that by (simp add: wordData_def occurrences_snoc ratingTotal_snoc)
    have "w \<in> set (encounterOrder (es @ [e])) \<longleftrightarrow> w \<in> set (encounterOrder es)"
      using False by (auto simp: set_encounterOrder)
    moreover have "w \<in> set (encounterOrder es) \<Longrightarrow> w \<in> set vocabulary"
      by (simp add: set_encounterOrder)
    ultimately show ?thesis
      using False snoc.IH same by (auto simp: collectTriggers_snoc map_of_scanEntry)
  next
    case True
    then have inn: "w \<in> set (encounterOrder (es @ [e]))"
      by (auto simp: set_encounterOrder)
    have "recordHit (polarity w) (rating e) (map_of (collectTriggers es) w) = wordData (es @ [e]) w"
    proof (cases "w \<in> set (encounterOrder es)")
      case True
      then show ?thesis
        using \<open>w \<in> set vocabulary \<and> mentions e w\<close>
        by (simp add: snoc.IH recordHit_def wordData_def occurrences_snoc ratingTotal_snoc)
    next
      case False
      with True have un: "\<forall>x \<in> set es. \<not> mentions x w"
        by (auto simp: set_encounterOrder)
      then have "occurrences es w = 0" "ratingTotal es w = 0"
        by (simp_all add: occurrences_zero ratingTotal_unmentioned)
      with False True show ?thesis
        by (simp add: snoc.IH recordHit_def wordData_def occurrences_snoc ratingTotal_snoc)
    qed
    with True inn show ?thesis
      by (simp add: collectTriggers_snoc map_of_scanEntry)
  qed
qed

lemma alist_by_keys:
  "distinct (map fst xs) \<Longrightarrow> xs = map (\<lambda>k. (k, the (map_of xs k))) (map fst xs)"
proof (induction xs)
  case Nil
  then show ?case by simp
next
  case (Cons x xs)
  then have "map (\<lambda>k. (k, the (map_of (x # xs) k))) (map fst xs)
      = map (\<lambda>k. (k, the (map_of xs k))) (map fst xs)"
    by (intro map_cong) (auto simp: image_iff)
  with Cons show ?case by (cases x) simp
qed

lemma collectTriggers_table:
  "collectTriggers es = map (\<lambda>w. (w, wordData es w)) (encounterOrder es)"
proof -
  have "collectTriggers es
      = map (\<lambda>k. (k, the (map_of (collectTriggers es) k))) (map fst (collectTriggers es))"
    by (rule alist_by_keys) (simp add: keys_collectTriggers distinct_encounterOrder)
  also have "\<dots> = map (\<lambda>w. (w, wordData es w)) (encounterOrder es)"
    unfolding keys_collectTriggers by (intro map_cong) (simp_all add: map_of_collectTriggers)
  finally show ?thesis .
qed

lemma insort_key_same_order:
  assumes "\<And>x y. f x \<le> f y \<longleftrightarrow> g x \<le> g y"
  shows "insort_key f x ys = insort_key g x ys"
  by (induction ys) (simp_all add: assms)

lemma sort_key_same_order:
  assumes "\<And>x y. f x \<le> f y \<longleftrightarrow> g x \<le> g y"
  shows "sort_key f xs = sort_key g xs"
  by (induction xs) (simp_all add: insort_key_same_order [of f g, OF assms])

lemma extractTriggers_ranked:
  "extractTriggers es =
     take 5 (sort_key (\<lambda>t. - int (frequency t))
       (map (triggerOf es) (filter (\<lambda>word. 2 \<le> occurrences es word) (encounterOrder es))))"
proof -
  have cmp: "(\<lambda>a b. (of_nat (frequency b) :: rat) - of_nat (frequency a))
      = (\<lambda>a b. (\<lambda>t. - of_int (int (frequency t))) a - (\<lambda>t. - of_int (int (frequency t))) b)"
    by (intro ext) simp
  have key: "sort_key (\<lambda>t. - (of_int (int (frequency t)) :: rat)) xs
      = sort_key (\<lambda>t. - int (frequency t)) xs" for xs :: "MoodTrigger list"
    by (rule sort_key_same_order) simp
  have "map toMoodTrigger (filter (\<lambda>kv. count (snd kv) \<ge> 2) (collectTriggers es))
      = map (triggerOf es) (filter (\<lambda>word. 2 \<le> occurrences es word) (encounterOrder es))"
    by (simp add: collectTriggers_table filter_map comp_def toMoodTrigger_def triggerOf_def
        wordData_def)
  then show ?thesis
    unfolding extractTriggers_def cmp sortBy_key key by simp
qed

subsection \<open>Ranking, output and overlapping words\<close>

lemma sorted_wrt_take: "sorted_wrt R xs \<Longrightarrow> sorted_wrt R (take n xs)"
  by (metis append_take_drop_id sorted_wrt_append)

lemma sort_key_descending:
  "sorted_wrt (\<lambda>a b. frequency b \<le> frequency a) (sort_key (\<lambda>t. - int (frequency t)) ts)"
proof -
  have "sorted (map (\<lambda>t. - int (frequency t)) (sort_key (\<lambda>t. - int (frequency t)) ts))"
    by (rule sorted_sort_key)
  then show ?thesis by (simp add: sorted_map)
qed

text \<open>
  C7 (as amended). \<open>extractTriggers\<close> discards every word with fewer than 2 occurrences,
  sorts the remaining words descending by occurrence count with a stable sort, so that ties
  stay in the order in which the scan first met the words (entry by entry, and within an entry
  in vocabulary order), and keeps the first 5: it never returns more than 5 triggers, each
  with at least 2 occurrences, in descending order of count.
\<close>

theorem extractTriggers_ranking:
  "extractTriggers es =
     take 5 (sort_key (\<lambda>t. - int (frequency t))
       (map (triggerOf es) (filter (\<lambda>word. 2 \<le> occurrences es word) (encounterOrder es))))
   \<and> length (extractTriggers es) \<le> 5
   \<and> (\<forall>t \<in> set (extractTriggers es). 2 \<le> frequency t)
   \<and> sorted_wrt (\<lambda>a b. frequency b \<le> frequency a) (extractTriggers es)
   \<and> distinct (encounterOrder es)
   \<and> set (encounterOrder es) = {w \<in> set vocabulary. \<exists>e \<in> set es. mentions e w}"
proof -
  let ?ranked = "sort_key (\<lambda>t. - int (frequency t))
       (map (triggerOf es) (filter (\<lambda>word. 2 \<le> occurrences es word) (encounterOrder es)))"
  have 1: "extractTriggers es = take 5 ?ranked" by (rule extractTriggers_ranked)
  have 2: "length (extractTriggers es) \<le> 5" unfolding 1 by simp
  have "\<forall>t \<in> set ?ranked. 2 \<le> frequency t" by (auto simp: triggerOf_def)
  then have 3: "\<forall>t \<in> set (extractTriggers es). 2 \<le> frequency t"
    unfolding 1 by (meson in_set_takeD)
  have 4: "sorted_wrt (\<lambda>a b. frequency b \<le> frequency a) (extractTriggers es)"
    unfolding 1 by (intro sorted_wrt_take sort_key_descending)
  from 1 2 3 4 distinct_encounterOrder [of es] set_encounterOrder [of es]
  show ?thesis by (intro conjI)
qed

text \<open>
  Six words are mentioned twice and five triggers come back; with stress mentioned before
  exercise and both twice, Stress is ranked before Exercise.
\<close>

theorem extractTriggers_ranking_witness:
  "length (filter (\<lambda>word. 2 \<le> occurrences sixWordsSample word) vocabulary) = 6
   \<and> length (extractTriggers sixWordsSample) = 5
   \<and> extractTriggers stressFirstSample =
       [\<lparr>trigger = ''Stress'', impact = negative, frequency = 2\<rparr>,
        \<lparr>trigger = ''Exercise'', impact = positive, frequency = 2\<rparr>]
   \<and> encounterOrder stressFirstSample = [''stress'', ''exercise'']
   \<and> \<lparr>trigger = ''Stress'', impact = negative, frequency = 2\<rparr> \<in> set (extractTriggers stressFirstSample)
   \<and> 2 \<le> frequency \<lparr>trigger = ''Stress'', impact = negative, frequency = 2\<rparr>"
proof -
  have a: "length (filter (\<lambda>word. 2 \<le> occurrences sixWordsSample word) vocabulary) = 6"
    by code_simp
  have b: "length (extractTriggers sixWordsSample) = 5" by code_simp
  have c: "encounterOrder stressFirstSample = [''stress'', ''exercise'']" by code_simp
  have d: "take 5 (sort_key (\<lambda>t. - int (frequency t))
       (map (triggerOf stressFirstSample)
         (filter (\<lambda>word. 2 \<le> occurrences stressFirstSample word) [''stress'', ''exercise''])))
     = [\<lparr>trigger = ''Stress'', impact = negative, frequency = 2\<rparr>,
        \<lparr>trigger = ''Exercise'', impact = positive, frequency = 2\<rparr>]"
    by code_simp
  note T = extractTriggers_ranking [of stressFirstSample]
  from T have e: "extractTriggers stressFirstSample =
       [\<lparr>trigger = ''Stress'', impact = negative, frequency = 2\<rparr>,
        \<lparr>trigger = ''Exercise'', impact = positive, frequency = 2\<rparr>]"
    unfolding c d by blast
  then have f: "\<lparr>trigger = ''Stress'', impact = negative, frequency = 2\<rparr>
      \<in> set (extractTriggers stressFirstSample)"
    by simp
  with T have g: "2 \<le> frequency \<lparr>trigger = ''Stress'', impact = negative, frequency = 2\<rparr>"
    by blast
  from a b c e f g show ?thesis by blast
qed

text \<open>
  C7 as the specification states it fails on the order of ties: in vocabulary order exercise
  comes before stress, and the code ranks Stress first because an earlier entry mentions it.
\<close>

theorem extractTriggers_tie_order_counterexample:
  "map trigger (extractTriggers stressFirstSample) = [''Stress'', ''Exercise'']
   \<and> map trigger (rankedInVocabularyOrder stressFirstSample) = [''Exercise'', ''Stress'']"
  by code_simp

lemma occurrences_by_details:
  "occurrences xs w =
     length (filter (\<lambda>d. case d of None \<Rightarrow> False
         | Some body \<Rightarrow> body \<noteq> [] \<and> String_includes (toLowerCase body) w)
       (map details xs))"
  by (induction xs) (simp_all add: occurrences_def mentions_def)

lemma mentioned_words_by_details:
  "concat (map (\<lambda>entry. filter (mentions entry) vocabulary) xs) =
     concat (map (\<lambda>d. filter (\<lambda>w. case d of None \<Rightarrow> False
         | Some body \<Rightarrow> body \<noteq> [] \<and> String_includes (toLowerCase body) w) vocabulary)
       (map details xs))"
  by (induction xs) (simp_all add: mentions_def)

lemma same_details_same_mentions:
  assumes "map details es = map details es'"
  shows "occurrences es = occurrences es'" and "encounterOrder es = encounterOrder es'"
proof -
  show "occurrences es = occurrences es'"
    by (intro ext) (simp only: occurrences_by_details assms)
  show "encounterOrder es = encounterOrder es'"
    by (simp only: encounterOrder_def mentioned_words_by_details assms)
qed

lemma same_details_same_triggers:
  assumes "map details es = map details es'"
  shows "extractTriggers es = extractTriggers es'"
proof -
  note s = same_details_same_mentions [OF assms]
  have "triggerOf es = triggerOf es'"
    by (intro ext) (simp add: triggerOf_def s(1))
  then show ?thesis
    by (simp only: extractTriggers_ranked s)
qed

text \<open>
  C8 (as amended). For every surviving word the trigger output holds the capitalized display
  form, the fixed polarity and the occurrence count, and nothing else. The accumulated
  rating total of the entries that mention the word is computed in the intermediate table,
  and is not part of the output: entry lists with the same notes give the same triggers
  whatever their ratings.
\<close>

theorem triggers_expose_no_rating_total:
  "collectTriggers es =
     map (\<lambda>w. (w, \<lparr>count = occurrences es w, totalImpact = ratingTotal es w, type = polarity w\<rparr>))
       (encounterOrder es)
   \<and> (\<forall>t \<in> set (extractTriggers es). \<exists>w \<in> set vocabulary.
        t = \<lparr>trigger = capitalize w, impact = polarity w, frequency = occurrences es w\<rparr>)
   \<and> (map details es = map details es' \<longrightarrow> extractTriggers es = extractTriggers es')"
proof -
  have 1: "collectTriggers es =
     map (\<lambda>w. (w, \<lparr>count = occurrences es w, totalImpact = ratingTotal es w, type = polarity w\<rparr>))
       (encounterOrder es)"
    using collectTriggers_table [of es] by (simp add: wordData_def)
  have "set (extractTriggers es) \<subseteq> triggerOf es ` set (encounterOrder es)"
    unfolding extractTriggers_ranked by (auto dest!: in_set_takeD)
  then have 2: "\<forall>t \<in> set (extractTriggers es). \<exists>w \<in> set vocabulary.
        t = \<lparr>trigger = capitalize w, impact = polarity w, frequency = occurrences es w\<rparr>"
    by (auto simp: set_encounterOrder triggerOf_def)
  have 3: "map details es = map details es' \<longrightarrow> extractTriggers es = extractTriggers es'"
    using same_details_same_triggers by blast
  from 1 2 3 show ?thesis by (intro conjI)
qed

text \<open>
  The sample and its re-rated copy have the same notes and the same triggers, each trigger
  being the display form, polarity and count of a vocabulary word.
\<close>

theorem triggers_expose_no_rating_total_witness:
  "map details stressFirstSample = map details stressFirstRerated
   \<and> extractTriggers stressFirstSample = extractTriggers stressFirstRerated
   \<and> \<lparr>trigger = ''Stress'', impact = negative, frequency = 2\<rparr>
       \<in> set (extractTriggers stressFirstSample)
   \<and> (\<exists>w \<in> set vocabulary. \<lparr>trigger = ''Stress'', impact = negative, frequency = 2\<rparr>
        = \<lparr>trigger = capitalize w, impact = polarity w,
            frequency = occurrences stressFirstSample w\<rparr>)"
proof -
  have a: "map details stressFirstSample = map details stressFirstRerated" by code_simp
  have b: "\<lparr>trigger = ''Stress'', impact = negative, frequency = 2\<rparr>
       \<in> set (extractTriggers stressFirstSample)"
    by code_simp
  note T = triggers_expose_no_rating_total [of stressFirstSample stressFirstRerated]
  from T a have c: "extractTriggers stressFirstSample = extractTriggers stressFirstRerated"
    by blast
  from T b have d: "\<exists>w \<in> set vocabulary. \<lparr>trigger = ''Stress'', impact = negative, frequency = 2\<rparr>
        = \<lparr>trigger = capitalize w, impact = polarity w,
            frequency = occurrences stressFirstSample w\<rparr>"
    by blast
  from a b c d show ?thesis by blast
qed

text \<open>
  C8 as the specification states it fails: the totals of the two samples differ (5 and 8
  against 2 and 5) and their trigger outputs are equal, so the output does not carry the total.
\<close>

theorem rating_total_not_exposed_counterexample:
  "collectTriggers stressFirstSample =
     [(''stress'', \<lparr>count = 2, totalImpact = 5, type = negative\<rparr>),
      (''exercise'', \<lparr>count = 2, totalImpact = 8, type = positive\<rparr>)]
   \<and> collectTriggers stressFirstRerated =
     [(''stress'', \<lparr>count = 2, totalImpact = 2, type = negative\<rparr>),
      (''exercise'', \<lparr>count = 2, totalImpact = 5, type = positive\<rparr>)]
   \<and> extractTriggers stressFirstSample = extractTriggers stressFirstRerated"
  by code_simp

lemma String_includes_prefix:
  "prefix v w \<Longrightarrow> String_includes s w \<Longrightarrow> String_includes s v"
proof (induction s)
  case Nil
  then show ?case by simp
next
  case (Cons c cs)
  then show ?case by (auto intro: prefix_order.trans)
qed

lemma workout_includes_work:
  "String_includes s ''workout'' \<Longrightarrow> String_includes s ''work''"
  by (rule String_includes_prefix [of "''work''" "''workout''"]) simp_all

text \<open>
  C10. An entry whose lower-cased note contains workout mentions both workout and work: the
  scan of that entry adds 1 to the count and the entry's rating to the total of the positive
  trigger workout and of the negative trigger work, so one mention yields a positive and a
  negative trigger.
\<close>

theorem workout_mention_counts_work:
  assumes "details entry = Some body" and "String_includes (toLowerCase body) ''workout''"
  shows "mentions entry ''workout'' \<and> mentions entry ''work''
    \<and> map_of (scanEntry triggers entry) ''workout''
        = Some (recordHit positive (rating entry) (map_of triggers ''workout''))
    \<and> map_of (scanEntry triggers entry) ''work''
        = Some (recordHit negative (rating entry) (map_of triggers ''work''))
    \<and> map_of (collectTriggers (es @ [entry])) ''workout''
        = Some \<lparr>count = occurrences es ''workout'' + 1,
                totalImpact = ratingTotal es ''workout'' + rating entry, type = positive\<rparr>
    \<and> map_of (collectTriggers (es @ [entry])) ''work''
        = Some \<lparr>count = occurrences es ''work'' + 1,
                totalImpact = ratingTotal es ''work'' + rating entry, type = negative\<rparr>"
proof -
  from assms(2) have ne: "body \<noteq> []" by (cases body) (simp_all add: toLowerCase_def)
  have m1: "mentions entry ''workout''"
    using assms ne by (simp add: mentions_def)
  have m2: "mentions entry ''work''"
    using assms ne workout_includes_work by (simp add: mentions_def)
  have v1: "''workout'' \<in> set vocabulary" and p1: "polarity ''workout'' = positive"
    by (simp_all add: vocabulary_def polarity_def positiveWords_def)
  have v2: "''work'' \<in> set vocabulary" and p2: "polarity ''work'' = negative"
    by (simp_all add: vocabulary_def polarity_def positiveWords_def negativeWords_def)
  have s1: "map_of (scanEntry triggers entry) ''workout''
        = Some (recordHit positive (rating entry) (map_of triggers ''workout''))"
    using m1 v1 p1 by (simp add: map_of_scanEntry)
  have s2: "map_of (scanEntry triggers entry) ''work''
        = Some (recordHit negative (rating entry) (map_of triggers ''work''))"
    using m2 v2 p2 by (simp add: map_of_scanEntry)
  have i1: "''workout'' \<in> set (encounterOrder (es @ [entry]))"
    and i2: "''work'' \<in> set (encounterOrder (es @ [entry]))"
    using m1 m2 v1 v2 by (auto simp: set_encounterOrder)
  have c1: "map_of (collectTriggers (es @ [entry])) ''workout''
        = Some \<lparr>count = occurrences es ''workout'' + 1,
                totalImpact = ratingTotal es ''workout'' + rating entry, type = positive\<rparr>"
    using i1 m1 p1
    by (simp add: map_of_collectTriggers wordData_def occurrences_snoc ratingTotal_snoc)
  have c2: "map_of (collectTriggers (es @ [entry])) ''work''
        = Some \<lparr>count = occurrences es ''work'' + 1,
                totalImpact = ratingTotal es ''work'' + rating entry, type = negative\<rparr>"
    using i2 m2 p2
    by (simp add: map_of_collectTriggers wordData_def occurrences_snoc ratingTotal_snoc)
  from m1 m2 s1 s2 c1 c2 show ?thesis by (intro conjI)
qed

text \<open>
  The note "Morning Workout" scanned into an empty table, and the two workout notes
  together: Workout is a positive and Work a negative trigger, both with 2 occurrences.
\<close>

theorem workout_mention_counts_work_witness:
  "details \<lparr>date = 2, rating = 5, details = Some ''Morning Workout''\<rparr> = Some ''Morning Workout''
   \<and> String_includes (toLowerCase ''Morning Workout'') ''workout''
   \<and> map_of (scanEntry [] \<lparr>date = 2, rating = 5, details = Some ''Morning Workout''\<rparr>) ''workout''
       = Some \<lparr>count = 1, totalImpact = 5, type = positive\<rparr>
   \<and> map_of (scanEntry [] \<lparr>date = 2, rating = 5, details = Some ''Morning Workout''\<rparr>) ''work''
       = Some \<lparr>count = 1, totalImpact = 5, type = negative\<rparr>
   \<and> extractTriggers workoutSample =
       [\<lparr>trigger = ''Workout'', impact = positive, frequency = 2\<rparr>,
        \<lparr>trigger = ''Work'', impact = negative, frequency = 2\<rparr>]"
proof -
  let ?e = "\<lparr>date = 2, rating = 5, details = Some ''Morning Workout''\<rparr>"
  have h1: "details ?e = Some ''Morning Workout''" by simp
  have h2: "String_includes (toLowerCase ''Morning Workout'') ''workout''" by code_simp
  have r1: "recordHit positive 5 None = \<lparr>count = 1, totalImpact = 5, type = positive\<rparr>"
    and r2: "recordHit negative 5 None = \<lparr>count = 1, totalImpact = 5, type = negative\<rparr>"
    by (simp_all add: recordHit_def)
  note T = workout_mention_counts_work [OF h1 h2, of "[]" "[]"]
  from T have "map_of (scanEntry [] ?e) ''workout''
      = Some (recordHit positive (rating ?e) (map_of [] ''workout''))"
    by blast
  then have a: "map_of (scanEntry [] ?e) ''workout''
      = Some \<lparr>count = 1, totalImpact = 5, type = positive\<rparr>"
    by (simp add: r1)
  from T have "map_of (scanEntry [] ?e) ''work''
      = Some (recordHit negative (rating ?e) (map_of [] ''work''))"
    by blast
  then have b: "map_of (scanEntry [] ?e) ''work''
      = Some \<lparr>count = 1, totalImpact = 5, type = negative\<rparr>"
    by (simp add: r2)
  have c: "extractTriggers workoutSample =
       [\<lparr>trigger = ''Workout'', impact = positive, frequency = 2\<rparr>,
        \<lparr>trigger = ''Work'', impact = negative, frequency = 2\<rparr>]"
    by code_simp
  from h1 h2 a b c show ?thesis by blast
qed

end
